theory Spec2Isabelle
  imports Complex_Main
begin

section \<open>Python values\<close>

text \<open>
  The values the handlers of \<^verbatim>\<open>mqtt_app.py\<close> handle: what \<^verbatim>\<open>json.loads\<close> returns
  (None, bool, int, float, str, list, dict with string keys), and the two further kinds
  of value a row of the store can hold (a Decimal and a datetime), which
  \<^verbatim>\<open>json.dumps\<close> refuses. A dict is the list of its items; floats are idealised as
  reals.
\<close>

datatype pv =
    PNone
  | PBool bool
  | PInt int
  | PFloat real
  | PStr string
  | PList "pv list"
  | PDict "(string \<times> pv) list"
  | PDecimal real
  | PTime int

text \<open>Python's truth value of an object (\<^verbatim>\<open>if x:\<close>, \<^verbatim>\<open>not x\<close>).\<close>

fun truthy :: "pv \<Rightarrow> bool" where
  "truthy PNone = False"
| "truthy (PBool b) = b"
| "truthy (PInt n) = (n \<noteq> 0)"
| "truthy (PFloat x) = (x \<noteq> 0)"
| "truthy (PStr s) = (s \<noteq> [])"
| "truthy (PList xs) = (xs \<noteq> [])"
| "truthy (PDict kv) = (kv \<noteq> [])"
| "truthy (PDecimal x) = (x \<noteq> 0)"
| "truthy (PTime t) = True"

text \<open>\<^verbatim>\<open>json.dumps\<close> raises TypeError on a Decimal or a datetime, at any depth.\<close>

primrec dumps_ok :: "pv \<Rightarrow> bool" where
  "dumps_ok PNone = True"
| "dumps_ok (PBool b) = True"
| "dumps_ok (PInt n) = True"
| "dumps_ok (PFloat x) = True"
| "dumps_ok (PStr s) = True"
| "dumps_ok (PList xs) = list_all (\<lambda>b. b) (map dumps_ok xs)"
| "dumps_ok (PDict kv) = list_all (\<lambda>b. b) (map (\<lambda>p. snd p) (map (map_prod (\<lambda>k. k) dumps_ok) kv))"
| "dumps_ok (PDecimal x) = False"
| "dumps_ok (PTime t) = False"

datatype exn =
    UnicodeDecodeError
  | JSONDecodeError
  | AttributeError
  | KeyError
  | TypeError
  | OperationalError
  | IntegrityError
  | DataError

text \<open>
  The text a handler receives, by what \<^verbatim>\<open>json.loads\<close> makes of it: the empty string,
  a text that is not JSON, or the text of a JSON value.
\<close>

datatype payload = Blank | Garbled | Doc pv

text \<open>\<^verbatim>\<open>json.loads(payload) if payload else dflt\<close>\<close>

fun loads :: "payload \<Rightarrow> pv \<Rightarrow> exn + pv" where
  "loads Blank dflt = Inr dflt"
| "loads Garbled dflt = Inl JSONDecodeError"
| "loads (Doc v) dflt = Inr v"

text \<open>\<^verbatim>\<open>data.get(key, dflt)\<close>: only a dict has the method.\<close>

fun py_get :: "pv \<Rightarrow> string \<Rightarrow> pv \<Rightarrow> exn + pv" where
  "py_get (PDict kv) k dflt = Inr (case map_of kv k of None \<Rightarrow> dflt | Some v \<Rightarrow> v)"
| "py_get v k dflt = Inl AttributeError"

section \<open>The store and the world\<close>

record reading =
  time :: int
  sensor_id :: int
  temperature :: "real option"
  humidity :: "real option"

record envelope =
  status_code :: int
  data :: pv

datatype log_entry = Received string | Published string | No_handler string

text \<open>
  What lies outside the source: how the store reads a parameter for each column type
  (None: the statement is rejected), what it answers to the text of an aggregate query,
  and how Python renders a datetime, an exception and a value as text.
\<close>

record lib =
  ts_in :: "pv \<Rightarrow> int option"
  sensor_in :: "pv \<Rightarrow> int option"
  reading_in :: "pv \<Rightarrow> real option"
  hours_in :: "pv \<Rightarrow> int option"
  limit_in :: "pv \<Rightarrow> nat option option"
  run_select :: "string \<Rightarrow> pv list \<Rightarrow> reading list \<Rightarrow> int \<Rightarrow> exn + (string \<times> pv) list list"
  isoformat :: "int \<Rightarrow> string"
  exn_str :: "exn \<Rightarrow> string"
  py_str :: "pv \<Rightarrow> string"
  py_float :: "pv \<Rightarrow> real option"

text \<open>
  The world a handler runs in: the committed rows of \<^verbatim>\<open>sensor_data\<close>, whether the store
  accepts connections, the store's clock (\<^verbatim>\<open>NOW()\<close>), the connections opened and
  closed and the commits made so far, the statements passed to \<^verbatim>\<open>cursor.execute\<close>
  as text, the messages published, and the log.
\<close>

record world =
  table :: "reading list"
  db_up :: bool
  clock :: int
  opened :: nat
  closed :: nat
  commits :: nat
  statements :: "(string \<times> pv list) list"
  sent :: "(string \<times> envelope) list"
  journal :: "log_entry list"

type_synonym 'a act = "world \<Rightarrow> (exn + 'a) \<times> world"

definition ok :: "'a \<Rightarrow> 'a act" where
  "ok x w = (Inr x, w)"

definition lift :: "exn + 'a \<Rightarrow> 'a act" where
  "lift r w = (r, w)"

definition andthen :: "'a act \<Rightarrow> ('a \<Rightarrow> 'b act) \<Rightarrow> 'b act" where
  "andthen m f w = (case m w of (Inl e, w') \<Rightarrow> (Inl e, w') | (Inr x, w') \<Rightarrow> f x w')"

text \<open>\<^verbatim>\<open>try: m  except ...: h e\<close>\<close>

definition attempt :: "'a act \<Rightarrow> (exn \<Rightarrow> 'a act) \<Rightarrow> 'a act" where
  "attempt m h w = (case m w of (Inl e, w') \<Rightarrow> h e w' | (Inr x, w') \<Rightarrow> (Inr x, w'))"

datatype operation =
    Health | Get_all | Get_by_id | Create | Create_bulk
  | Update | Delete | Delete_by_id | Stats | Time_bucket

fun request_topic :: "operation \<Rightarrow> string" where
  "request_topic Health = ''sensors/health/request''"
| "request_topic Get_all = ''sensors/get_all/request''"
| "request_topic Get_by_id = ''sensors/get_by_id/request''"
| "request_topic Create = ''sensors/create/request''"
| "request_topic Create_bulk = ''sensors/create_bulk/request''"
| "request_topic Update = ''sensors/update/request''"
| "request_topic Delete = ''sensors/delete/request''"
| "request_topic Delete_by_id = ''sensors/delete_by_id/request''"
| "request_topic Stats = ''sensors/stats/request''"
| "request_topic Time_bucket = ''sensors/time_bucket/request''"

fun response_topic :: "operation \<Rightarrow> string" where
  "response_topic Health = ''sensors/health/response''"
| "response_topic Get_all = ''sensors/get_all/response''"
| "response_topic Get_by_id = ''sensors/get_by_id/response''"
| "response_topic Create = ''sensors/create/response''"
| "response_topic Create_bulk = ''sensors/create_bulk/response''"
| "response_topic Update = ''sensors/update/response''"
| "response_topic Delete = ''sensors/delete/response''"
| "response_topic Delete_by_id = ''sensors/delete_by_id/response''"
| "response_topic Stats = ''sensors/stats/response''"
| "response_topic Time_bucket = ''sensors/time_bucket/response''"

text \<open>
  \<^verbatim>\<open>get_db_connection\<close>: \<^verbatim>\<open>psycopg.connect\<close> raises when the store is unreachable.
  The connection is the view of the table its transaction works on.
\<close>

definition get_db_connection :: "reading list act" where
  "get_db_connection w =
     (if db_up w then (Inr (table w), w\<lparr>opened := opened w + 1\<rparr>)
      else (Inl OperationalError, w))"

definition conn_close :: "unit act" where
  "conn_close w = (Inr (), w\<lparr>closed := closed w + 1\<rparr>)"

definition conn_commit :: "reading list \<Rightarrow> unit act" where
  "conn_commit conn w = (Inr (), w\<lparr>table := conn, commits := commits w + 1\<rparr>)"

text \<open>
  \<^verbatim>\<open>publish_response\<close>: \<^verbatim>\<open>json.dumps\<close> comes first, so a response that cannot be
  serialised raises before anything is published.
\<close>

definition publish_response :: "string \<Rightarrow> pv \<Rightarrow> int \<Rightarrow> unit act" where
  "publish_response topic d code w =
     (let response = \<lparr>status_code = code, data = d\<rparr> in
      if dumps_ok d
      then (Inr (), w\<lparr>sent := sent w @ [(topic, response)],
                      journal := journal w @ [Published topic]\<rparr>)
      else (Inl TypeError, w))"

definition error_body :: "string \<Rightarrow> pv" where
  "error_body s = PDict [(''error'', PStr s)]"

definition handle_health_check :: "lib \<Rightarrow> payload \<Rightarrow> unit act" where
  "handle_health_check L p =
     attempt
       (andthen get_db_connection (\<lambda>conn.
        andthen conn_close (\<lambda>_.
        publish_response (response_topic Health)
          (PDict [(''status'', PStr ''healthy''), (''database'', PStr ''connected'')]) 200)))
       (\<lambda>e. publish_response (response_topic Health)
          (PDict [(''status'', PStr ''unhealthy''), (''error'', PStr (exn_str L e))]) 500)"

section \<open>The statements sent to the store\<close>

text \<open>
  Each statement is given the meaning of its SQL text on the rows its connection sees.
  A parameter the store cannot read for its column makes the statement fail.
\<close>

definition accepted :: "'a option \<Rightarrow> ('a \<Rightarrow> 'b act) \<Rightarrow> 'b act" where
  "accepted x f w = (case x of None \<Rightarrow> (Inl DataError, w) | Some v \<Rightarrow> f v w)"

definition newest_first :: "reading list \<Rightarrow> reading list" where
  "newest_first rows = sort_key (\<lambda>r. - time r) rows"

fun limit_rows :: "nat option \<Rightarrow> reading list \<Rightarrow> reading list" where
  "limit_rows None rows = rows"
| "limit_rows (Some n) rows = take n rows"

text \<open>
  \<^verbatim>\<open>SELECT time, sensor_id, temperature, humidity FROM sensor_data
  WHERE sensor_id = %s AND time > NOW() - INTERVAL '%s hours' ORDER BY time DESC LIMIT %s\<close>
\<close>

definition select_sensor_limited ::
  "lib \<Rightarrow> pv \<Rightarrow> pv \<Rightarrow> pv \<Rightarrow> reading list \<Rightarrow> reading list act" where
  "select_sensor_limited L sid hours limit conn =
     accepted (sensor_in L sid) (\<lambda>s.
     accepted (hours_in L hours) (\<lambda>hrs.
     accepted (limit_in L limit) (\<lambda>n w.
       (Inr (limit_rows n (newest_first
          (filter (\<lambda>r. sensor_id r = s \<and> time r > clock w - hrs) conn))), w))))"

text \<open>
  \<^verbatim>\<open>SELECT time, sensor_id, temperature, humidity FROM sensor_data
  WHERE time > NOW() - INTERVAL '%s hours' ORDER BY time DESC LIMIT %s\<close>
\<close>

definition select_all_limited ::
  "lib \<Rightarrow> pv \<Rightarrow> pv \<Rightarrow> reading list \<Rightarrow> reading list act" where
  "select_all_limited L hours limit conn =
     accepted (hours_in L hours) (\<lambda>hrs.
     accepted (limit_in L limit) (\<lambda>n w.
       (Inr (limit_rows n (newest_first
          (filter (\<lambda>r. time r > clock w - hrs) conn))), w)))"

text \<open>
  \<^verbatim>\<open>SELECT time, sensor_id, temperature, humidity FROM sensor_data
  WHERE sensor_id = %s AND time > NOW() - INTERVAL '%s hours' ORDER BY time DESC\<close>
\<close>

definition select_sensor ::
  "lib \<Rightarrow> pv \<Rightarrow> pv \<Rightarrow> reading list \<Rightarrow> reading list act" where
  "select_sensor L sid hours conn =
     accepted (sensor_in L sid) (\<lambda>s.
     accepted (hours_in L hours) (\<lambda>hrs w.
       (Inr (newest_first
          (filter (\<lambda>r. sensor_id r = s \<and> time r > clock w - hrs) conn)), w)))"

text \<open>Python's None is sent as NULL; any other value is read for a real column.\<close>

definition col_real :: "lib \<Rightarrow> pv \<Rightarrow> real option option" where
  "col_real L v = (case v of PNone \<Rightarrow> Some None | _ \<Rightarrow> map_option Some (reading_in L v))"

text \<open>The time of a new row: the parameter, or \<^verbatim>\<open>NOW()\<close> when the statement has none.\<close>

definition col_time :: "lib \<Rightarrow> pv option \<Rightarrow> int \<Rightarrow> int option" where
  "col_time L tm now = (case tm of None \<Rightarrow> Some now | Some v \<Rightarrow> ts_in L v)"

text \<open>
  Modelled from the spec: the key of the table \<^verbatim>\<open>sensor_data\<close>, whose declaration is
  not among the sources: \<open>(time, sensor_id)\<close> identifies a reading, and the store
  rejects the insert of a second row with the key of a stored one.

  \<^verbatim>\<open>INSERT INTO sensor_data (time, sensor_id, temperature, humidity)
  VALUES (%s, %s, %s, %s)\<close>, or with \<^verbatim>\<open>NOW()\<close> for the time when none is given;
  the result holds the new view of the table and the inserted row (\<^verbatim>\<open>RETURNING\<close>).
\<close>

definition insert_row ::
  "lib \<Rightarrow> pv option \<Rightarrow> pv \<Rightarrow> pv \<Rightarrow> pv \<Rightarrow> reading list \<Rightarrow> (reading list \<times> reading) act" where
  "insert_row L tm sid temp hum conn w =
     accepted (col_time L tm (clock w)) (\<lambda>t.
     accepted (sensor_in L sid) (\<lambda>s.
     accepted (col_real L temp) (\<lambda>x.
     accepted (col_real L hum) (\<lambda>y w'.
       if list_ex (\<lambda>r. time r = t \<and> sensor_id r = s) conn
       then (Inl IntegrityError, w')
       else (Inr (conn @ [\<lparr>time = t, sensor_id = s, temperature = x, humidity = y\<rparr>],
                  \<lparr>time = t, sensor_id = s, temperature = x, humidity = y\<rparr>), w'))))) w"

fun coalesce :: "'a option \<Rightarrow> 'a option \<Rightarrow> 'a option" where
  "coalesce (Some v) old = Some v"
| "coalesce None old = old"

text \<open>
  \<^verbatim>\<open>UPDATE sensor_data SET temperature = COALESCE(%s, temperature),
  humidity = COALESCE(%s, humidity) WHERE time = %s AND sensor_id = %s
  RETURNING time, sensor_id, temperature, humidity\<close>; the second component is what
  \<^verbatim>\<open>cursor.fetchone()\<close> gives afterwards.
\<close>

definition fetchone :: "'a list \<Rightarrow> 'a option" where
  "fetchone rows = (case rows of [] \<Rightarrow> None | r # rest \<Rightarrow> Some r)"

definition update_row ::
  "lib \<Rightarrow> pv \<Rightarrow> pv \<Rightarrow> pv \<Rightarrow> pv \<Rightarrow> reading list \<Rightarrow> (reading list \<times> reading option) act" where
  "update_row L temp hum tm sid conn =
     accepted (col_real L temp) (\<lambda>x.
     accepted (col_real L hum) (\<lambda>y.
     accepted (ts_in L tm) (\<lambda>t.
     accepted (sensor_in L sid) (\<lambda>s w.
       (Inr (map (\<lambda>r. if time r = t \<and> sensor_id r = s
                       then r\<lparr>temperature := coalesce x (temperature r),
                              humidity := coalesce y (humidity r)\<rparr>
                       else r) conn,
             fetchone (map (\<lambda>r. r\<lparr>temperature := coalesce x (temperature r),
                                     humidity := coalesce y (humidity r)\<rparr>)
                        (filter (\<lambda>r. time r = t \<and> sensor_id r = s) conn))), w)))))"

text \<open>
  \<^verbatim>\<open>DELETE FROM sensor_data WHERE time = %s AND sensor_id = %s\<close>; the second component
  is \<^verbatim>\<open>cursor.rowcount\<close>.
\<close>

definition delete_row ::
  "lib \<Rightarrow> pv \<Rightarrow> pv \<Rightarrow> reading list \<Rightarrow> (reading list \<times> nat) act" where
  "delete_row L tm sid conn =
     accepted (ts_in L tm) (\<lambda>t.
     accepted (sensor_in L sid) (\<lambda>s w.
       (Inr (filter (\<lambda>r. \<not> (time r = t \<and> sensor_id r = s)) conn,
             length (filter (\<lambda>r. time r = t \<and> sensor_id r = s) conn)), w)))"

text \<open>\<^verbatim>\<open>DELETE FROM sensor_data WHERE sensor_id = %s\<close>\<close>

definition delete_rows_of ::
  "lib \<Rightarrow> pv \<Rightarrow> reading list \<Rightarrow> (reading list \<times> nat) act" where
  "delete_rows_of L sid conn =
     accepted (sensor_in L sid) (\<lambda>s w.
       (Inr (filter (\<lambda>r. sensor_id r \<noteq> s) conn,
             length (filter (\<lambda>r. sensor_id r = s) conn)), w))"

text \<open>
  \<^verbatim>\<open>cursor.execute(query, params)\<close> followed by \<^verbatim>\<open>cursor.fetchall()\<close> for the
  aggregate queries: the text and the parameters go to the store, which answers with
  rows (dicts) or an error.
\<close>

definition cursor_execute ::
  "lib \<Rightarrow> string \<Rightarrow> pv list \<Rightarrow> reading list \<Rightarrow> (string \<times> pv) list list act" where
  "cursor_execute L query params conn w =
     (run_select L query params conn (clock w),
      w\<lparr>statements := statements w @ [(query, params)]\<rparr>)"

section \<open>The handlers\<close>

definition opt_float :: "real option \<Rightarrow> pv" where
  "opt_float x = (case x of None \<Rightarrow> PNone | Some v \<Rightarrow> PFloat v)"

text \<open>\<^verbatim>\<open>row_dict = dict(row); row_dict['time'] = row_dict['time'].isoformat()\<close>\<close>

definition row_dict :: "lib \<Rightarrow> reading \<Rightarrow> pv" where
  "row_dict L r =
     PDict [(''time'', PStr (isoformat L (time r))),
            (''sensor_id'', PInt (sensor_id r)),
            (''temperature'', opt_float (temperature r)),
            (''humidity'', opt_float (humidity r))]"

definition listing :: "lib \<Rightarrow> reading list \<Rightarrow> pv" where
  "listing L rows =
     PDict [(''data'', PList (map (row_dict L) rows)), (''count'', PInt (int (length rows)))]"

definition handle_get_all_sensors :: "lib \<Rightarrow> payload \<Rightarrow> unit act" where
  "handle_get_all_sensors L p =
     attempt
       (andthen get_db_connection (\<lambda>conn.
        andthen (lift (loads p (PDict []))) (\<lambda>d.
        andthen (lift (py_get d ''sensor_id'' PNone)) (\<lambda>sid.
        andthen (lift (py_get d ''hours'' (PInt 24))) (\<lambda>hours.
        andthen (lift (py_get d ''limit'' (PInt 100))) (\<lambda>limit.
        andthen (if truthy sid then select_sensor_limited L sid hours limit conn
                 else select_all_limited L hours limit conn) (\<lambda>rows.
        andthen conn_close (\<lambda>_.
        publish_response (response_topic Get_all) (listing L rows) 200))))))))
       (\<lambda>e. publish_response (response_topic Get_all) (error_body (exn_str L e)) 500)"

definition handle_get_sensor_by_id :: "lib \<Rightarrow> payload \<Rightarrow> unit act" where
  "handle_get_sensor_by_id L p =
     attempt
       (andthen (lift (loads p (PDict []))) (\<lambda>d.
        andthen (lift (py_get d ''sensor_id'' PNone)) (\<lambda>sid.
        andthen (lift (py_get d ''hours'' (PInt 24))) (\<lambda>hours.
        if sid = PNone
        then publish_response (response_topic Get_by_id) (error_body ''sensor_id is required'') 400
        else
          andthen get_db_connection (\<lambda>conn.
          andthen (select_sensor L sid hours conn) (\<lambda>rows.
          andthen conn_close (\<lambda>_.
          publish_response (response_topic Get_by_id) (listing L rows) 200)))))))
       (\<lambda>e. publish_response (response_topic Get_by_id) (error_body (exn_str L e)) 500)"

text \<open>\<^verbatim>\<open>if time:\<close> chooses between the insert with the given time and the one with NOW().\<close>

definition given_time :: "pv \<Rightarrow> pv option" where
  "given_time tm = (if truthy tm then Some tm else None)"

definition handle_create_sensor :: "lib \<Rightarrow> payload \<Rightarrow> unit act" where
  "handle_create_sensor L p =
     attempt
       (andthen (lift (loads p (PDict []))) (\<lambda>d.
        if \<not> truthy d
        then publish_response (response_topic Create) (error_body ''No data provided'') 400
        else
          andthen (lift (py_get d ''sensor_id'' PNone)) (\<lambda>sid.
          andthen (lift (py_get d ''temperature'' PNone)) (\<lambda>temp.
          andthen (lift (py_get d ''humidity'' PNone)) (\<lambda>hum.
          andthen (lift (py_get d ''time'' PNone)) (\<lambda>tm.
          if sid = PNone
          then publish_response (response_topic Create) (error_body ''sensor_id is required'') 400
          else
            andthen get_db_connection (\<lambda>conn.
            andthen (insert_row L (given_time tm) sid temp hum conn) (\<lambda>res.
            andthen (conn_commit (fst res)) (\<lambda>_.
            andthen conn_close (\<lambda>_.
            publish_response (response_topic Create)
              (PDict [(''message'', PStr ''Sensor data created successfully''),
                      (''data'', row_dict L (snd res))]) 201))))))))))
       (\<lambda>e. if e = IntegrityError
            then publish_response (response_topic Create)
                   (error_body ''Duplicate entry for this time and sensor_id'') 409
            else publish_response (response_topic Create) (error_body (exn_str L e)) 500)"

text \<open>Python's \<^verbatim>\<open>str\<close> of an int: its decimal digits, after a minus sign when negative.\<close>

definition digit :: "nat \<Rightarrow> char" where
  "digit n = ''0123456789'' ! (n mod 10)"

fun str_nat :: "nat \<Rightarrow> string" where
  "str_nat n = (if n < 10 then [digit n] else str_nat (n div 10) @ [digit n])"

declare str_nat.simps [simp del]

definition str_int :: "int \<Rightarrow> string" where
  "str_int i = (if i < 0 then CHR ''-'' # str_nat (nat (- i)) else str_nat (nat i))"

text \<open>
  A value inside an f-string: a str stands for itself, an int for its digits, anything
  else for its \<^verbatim>\<open>str()\<close>.
\<close>

definition fstr :: "lib \<Rightarrow> pv \<Rightarrow> string" where
  "fstr L v = (case v of PStr s \<Rightarrow> s | PInt i \<Rightarrow> str_int i | _ \<Rightarrow> py_str L v)"

text \<open>
  The loop of \<^verbatim>\<open>handle_create_bulk_sensors\<close> over the entries, with the connection's
  view and \<^verbatim>\<open>inserted_count\<close> as they stand.
\<close>

fun insert_entries :: "lib \<Rightarrow> pv list \<Rightarrow> reading list \<Rightarrow> nat \<Rightarrow> (reading list \<times> nat) act" where
  "insert_entries L [] conn inserted_count = ok (conn, inserted_count)"
| "insert_entries L (entry # rest) conn inserted_count =
     andthen (lift (py_get entry ''sensor_id'' PNone)) (\<lambda>sid.
     andthen (lift (py_get entry ''temperature'' PNone)) (\<lambda>temp.
     andthen (lift (py_get entry ''humidity'' PNone)) (\<lambda>hum.
     andthen (lift (py_get entry ''time'' PNone)) (\<lambda>tm.
     if sid = PNone then insert_entries L rest conn inserted_count
     else
       andthen (insert_row L (given_time tm) sid temp hum conn) (\<lambda>res.
       insert_entries L rest (fst res) (inserted_count + 1))))))"

fun isinstance_list :: "pv \<Rightarrow> bool" where
  "isinstance_list (PList xs) = True"
| "isinstance_list v = False"

fun items :: "pv \<Rightarrow> pv list" where
  "items (PList xs) = xs"
| "items v = []"

definition handle_create_bulk_sensors :: "lib \<Rightarrow> payload \<Rightarrow> unit act" where
  "handle_create_bulk_sensors L p =
     attempt
       (andthen (lift (loads p (PList []))) (\<lambda>d.
        if \<not> truthy d \<or> \<not> isinstance_list d
        then publish_response (response_topic Create_bulk)
               (error_body ''Expected a list of sensor data'') 400
        else
          andthen get_db_connection (\<lambda>conn.
          andthen (insert_entries L (items d) conn 0) (\<lambda>res.
          andthen (conn_commit (fst res)) (\<lambda>_.
          andthen conn_close (\<lambda>_.
          publish_response (response_topic Create_bulk)
            (PDict [(''message'',
               PStr (str_int (int (snd res)) @ '' records inserted successfully''))])
            201))))))
       (\<lambda>e. publish_response (response_topic Create_bulk) (error_body (exn_str L e)) 500)"

definition handle_update_sensor :: "lib \<Rightarrow> payload \<Rightarrow> unit act" where
  "handle_update_sensor L p =
     attempt
       (andthen (lift (loads p (PDict []))) (\<lambda>d.
        if \<not> truthy d
        then publish_response (response_topic Update) (error_body ''No data provided'') 400
        else
          andthen (lift (py_get d ''time'' PNone)) (\<lambda>tm.
          andthen (lift (py_get d ''sensor_id'' PNone)) (\<lambda>sid.
          if \<not> truthy tm \<or> sid = PNone
          then publish_response (response_topic Update)
                 (error_body ''time and sensor_id are required to identify the record'') 400
          else
            andthen (lift (py_get d ''temperature'' PNone)) (\<lambda>temp.
            andthen (lift (py_get d ''humidity'' PNone)) (\<lambda>hum.
            andthen get_db_connection (\<lambda>conn.
            andthen (update_row L temp hum tm sid conn) (\<lambda>res.
            (case snd res of
               None \<Rightarrow>
                 andthen conn_close (\<lambda>_.
                 publish_response (response_topic Update) (error_body ''Record not found'') 404)
             | Some updated_record \<Rightarrow>
                 andthen (conn_commit (fst res)) (\<lambda>_.
                 andthen conn_close (\<lambda>_.
                 publish_response (response_topic Update)
                   (PDict [(''message'', PStr ''Sensor data updated successfully''),
                           (''data'', row_dict L updated_record)]) 200)))))))))))
       (\<lambda>e. publish_response (response_topic Update) (error_body (exn_str L e)) 500)"

definition handle_delete_sensor :: "lib \<Rightarrow> payload \<Rightarrow> unit act" where
  "handle_delete_sensor L p =
     attempt
       (andthen (lift (loads p (PDict []))) (\<lambda>d.
        andthen (lift (py_get d ''time'' PNone)) (\<lambda>tm.
        andthen (lift (py_get d ''sensor_id'' PNone)) (\<lambda>sid.
        if \<not> truthy tm \<or> sid = PNone
        then publish_response (response_topic Delete)
               (error_body ''time and sensor_id are required'') 400
        else
          andthen get_db_connection (\<lambda>conn.
          andthen (delete_row L tm sid conn) (\<lambda>res.
          andthen (conn_commit (fst res)) (\<lambda>_.
          andthen conn_close (\<lambda>_.
          if snd res = 0
          then publish_response (response_topic Delete) (error_body ''Record not found'') 404
          else publish_response (response_topic Delete)
                 (PDict [(''message'', PStr ''Sensor data deleted successfully''),
                         (''deleted_count'', PInt (int (snd res)))]) 200))))))))
       (\<lambda>e. publish_response (response_topic Delete) (error_body (exn_str L e)) 500)"


definition handle_delete_sensor_by_id :: "lib \<Rightarrow> payload \<Rightarrow> unit act" where
  "handle_delete_sensor_by_id L p =
     attempt
       (andthen (lift (loads p (PDict []))) (\<lambda>d.
        andthen (lift (py_get d ''sensor_id'' PNone)) (\<lambda>sid.
        if sid = PNone
        then publish_response (response_topic Delete_by_id)
               (error_body ''sensor_id is required'') 400
        else
          andthen get_db_connection (\<lambda>conn.
          andthen (delete_rows_of L sid conn) (\<lambda>res.
          andthen (conn_commit (fst res)) (\<lambda>_.
          andthen conn_close (\<lambda>_.
          publish_response (response_topic Delete_by_id)
            (PDict [(''message'',
               PStr (''Deleted '' @ str_int (int (snd res)) @ '' records for sensor ''
                     @ fstr L sid))]) 200)))))))
       (\<lambda>e. publish_response (response_topic Delete_by_id) (error_body (exn_str L e)) 500)"

subsection \<open>Aggregates\<close>

definition nl :: char where
  "nl = CHR 0x0A"

definition apos :: char where
  "apos = CHR 0x27"

definition stats_query_one :: string where
  "stats_query_one =
     [nl] @
     ''                SELECT '' @ [nl] @
     ''                    sensor_id,'' @ [nl] @
     ''                    COUNT(*) as total_readings,'' @ [nl] @
     ''                    AVG(temperature) as avg_temperature,'' @ [nl] @
     ''                    MIN(temperature) as min_temperature,'' @ [nl] @
     ''                    MAX(temperature) as max_temperature,'' @ [nl] @
     ''                    AVG(humidity) as avg_humidity,'' @ [nl] @
     ''                    MIN(humidity) as min_humidity,'' @ [nl] @
     ''                    MAX(humidity) as max_humidity,'' @ [nl] @
     ''                    MIN(time) as first_reading,'' @ [nl] @
     ''                    MAX(time) as last_reading'' @ [nl] @
     ''                FROM sensor_data '' @ [nl] @
     ''                WHERE sensor_id = %s AND time > NOW() - INTERVAL '' @ [apos] @ ''%s hours'' @ [apos] @ [nl] @
     ''                GROUP BY sensor_id'' @ [nl] @
     ''            ''"

definition stats_query_all :: string where
  "stats_query_all =
     [nl] @
     ''                SELECT '' @ [nl] @
     ''                    sensor_id,'' @ [nl] @
     ''                    COUNT(*) as total_readings,'' @ [nl] @
     ''                    AVG(temperature) as avg_temperature,'' @ [nl] @
     ''                    MIN(temperature) as min_temperature,'' @ [nl] @
     ''                    MAX(temperature) as max_temperature,'' @ [nl] @
     ''                    AVG(humidity) as avg_humidity,'' @ [nl] @
     ''                    MIN(humidity) as min_humidity,'' @ [nl] @
     ''                    MAX(humidity) as max_humidity,'' @ [nl] @
     ''                    MIN(time) as first_reading,'' @ [nl] @
     ''                    MAX(time) as last_reading'' @ [nl] @
     ''                FROM sensor_data '' @ [nl] @
     ''                WHERE time > NOW() - INTERVAL '' @ [apos] @ ''%s hours'' @ [apos] @ [nl] @
     ''                GROUP BY sensor_id'' @ [nl] @
     ''                ORDER BY sensor_id'' @ [nl] @
     ''            ''"

text \<open>The two f-strings of \<^verbatim>\<open>handle_time_bucket\<close>, as functions of the text put for \<^verbatim>\<open>{bucket}\<close>.\<close>

definition bucket_query_one :: "string \<Rightarrow> string" where
  "bucket_query_one bucket =
     [nl] @
     ''                SELECT '' @ [nl] @
     ''                    time_bucket('' @ [apos] @ bucket @ [apos] @ '', time) AS bucket,'' @ [nl] @
     ''                    sensor_id,'' @ [nl] @
     ''                    AVG(temperature) as avg_temperature,'' @ [nl] @
     ''                    AVG(humidity) as avg_humidity,'' @ [nl] @
     ''                    COUNT(*) as readings'' @ [nl] @
     ''                FROM sensor_data '' @ [nl] @
     ''                WHERE sensor_id = %s AND time > NOW() - INTERVAL '' @ [apos] @ ''%s hours'' @ [apos] @ [nl] @
     ''                GROUP BY bucket, sensor_id'' @ [nl] @
     ''                ORDER BY bucket DESC'' @ [nl] @
     ''            ''"

definition bucket_query_all :: "string \<Rightarrow> string" where
  "bucket_query_all bucket =
     [nl] @
     ''                SELECT '' @ [nl] @
     ''                    time_bucket('' @ [apos] @ bucket @ [apos] @ '', time) AS bucket,'' @ [nl] @
     ''                    sensor_id,'' @ [nl] @
     ''                    AVG(temperature) as avg_temperature,'' @ [nl] @
     ''                    AVG(humidity) as avg_humidity,'' @ [nl] @
     ''                    COUNT(*) as readings'' @ [nl] @
     ''                FROM sensor_data '' @ [nl] @
     ''                WHERE time > NOW() - INTERVAL '' @ [apos] @ ''%s hours'' @ [apos] @ [nl] @
     ''                GROUP BY bucket, sensor_id'' @ [nl] @
     ''                ORDER BY bucket DESC, sensor_id'' @ [nl] @
     ''            ''"

definition sthen :: "exn + 'a \<Rightarrow> ('a \<Rightarrow> exn + 'b) \<Rightarrow> exn + 'b" where
  "sthen r f = (case r of Inl e \<Rightarrow> Inl e | Inr x \<Rightarrow> f x)"

text \<open>\<^verbatim>\<open>row_dict[key]\<close> and \<^verbatim>\<open>row_dict[key] = v\<close>\<close>

definition py_index :: "(string \<times> pv) list \<Rightarrow> string \<Rightarrow> exn + pv" where
  "py_index kv k = (case map_of kv k of None \<Rightarrow> Inl KeyError | Some v \<Rightarrow> Inr v)"

fun dict_set :: "(string \<times> pv) list \<Rightarrow> string \<Rightarrow> pv \<Rightarrow> (string \<times> pv) list" where
  "dict_set [] k v = [(k, v)]"
| "dict_set (kv # rest) k v = (if fst kv = k then (k, v) # rest else kv # dict_set rest k v)"

text \<open>\<^verbatim>\<open>v.isoformat()\<close>: a method of a datetime only.\<close>

definition to_iso :: "lib \<Rightarrow> pv \<Rightarrow> exn + pv" where
  "to_iso L v = (case v of PTime t \<Rightarrow> Inr (PStr (isoformat L t)) | _ \<Rightarrow> Inl AttributeError)"

text \<open>\<^verbatim>\<open>float(v)\<close>\<close>

definition to_float :: "lib \<Rightarrow> pv \<Rightarrow> exn + pv" where
  "to_float L v = (case py_float L v of None \<Rightarrow> Inl TypeError | Some x \<Rightarrow> Inr (PFloat x))"

text \<open>\<^verbatim>\<open>if row_dict[k]: row_dict[k] = row_dict[k].isoformat()\<close>\<close>

definition iso_if_set :: "lib \<Rightarrow> string \<Rightarrow> (string \<times> pv) list \<Rightarrow> exn + (string \<times> pv) list" where
  "iso_if_set L k kv =
     sthen (py_index kv k) (\<lambda>v.
     if truthy v then sthen (to_iso L v) (\<lambda>s. Inr (dict_set kv k s)) else Inr kv)"

text \<open>\<^verbatim>\<open>if row_dict[k] is not None: row_dict[k] = float(row_dict[k])\<close>\<close>

definition float_if_given :: "lib \<Rightarrow> string \<Rightarrow> (string \<times> pv) list \<Rightarrow> exn + (string \<times> pv) list" where
  "float_if_given L k kv =
     sthen (py_index kv k) (\<lambda>v.
     if v \<noteq> PNone then sthen (to_float L v) (\<lambda>x. Inr (dict_set kv k x)) else Inr kv)"

fun floats_for :: "lib \<Rightarrow> string list \<Rightarrow> (string \<times> pv) list \<Rightarrow> exn + (string \<times> pv) list" where
  "floats_for L [] kv = Inr kv"
| "floats_for L (k # ks) kv = sthen (float_if_given L k kv) (floats_for L ks)"

definition shape_stats_row :: "lib \<Rightarrow> (string \<times> pv) list \<Rightarrow> exn + (string \<times> pv) list" where
  "shape_stats_row L row =
     sthen (iso_if_set L ''first_reading'' row) (\<lambda>r1.
     sthen (iso_if_set L ''last_reading'' r1) (\<lambda>r2.
     floats_for L [''avg_temperature'', ''min_temperature'', ''max_temperature'',
                   ''avg_humidity'', ''min_humidity'', ''max_humidity''] r2))"

definition shape_bucket_row :: "lib \<Rightarrow> (string \<times> pv) list \<Rightarrow> exn + (string \<times> pv) list" where
  "shape_bucket_row L row =
     sthen (py_index row ''bucket'') (\<lambda>b.
     sthen (to_iso L b) (\<lambda>s.
     sthen (float_if_given L ''avg_temperature'' (dict_set row ''bucket'' s)) (\<lambda>r1.
     float_if_given L ''avg_humidity'' r1)))"

text \<open>The loop \<^verbatim>\<open>for row in data: ... result.append(row_dict)\<close>; the first failure ends it.\<close>

fun shape_rows ::
  "((string \<times> pv) list \<Rightarrow> exn + (string \<times> pv) list) \<Rightarrow> (string \<times> pv) list list \<Rightarrow> exn + pv list" where
  "shape_rows f [] = Inr []"
| "shape_rows f (row # rows) =
     sthen (f row) (\<lambda>r. sthen (shape_rows f rows) (\<lambda>rs. Inr (PDict r # rs)))"

definition handle_get_stats :: "lib \<Rightarrow> payload \<Rightarrow> unit act" where
  "handle_get_stats L p =
     attempt
       (andthen (lift (loads p (PDict []))) (\<lambda>d.
        andthen (lift (py_get d ''hours'' (PInt 24))) (\<lambda>hours.
        andthen (lift (py_get d ''sensor_id'' PNone)) (\<lambda>sid.
        andthen get_db_connection (\<lambda>conn.
        andthen (if truthy sid then cursor_execute L stats_query_one [sid, hours] conn
                 else cursor_execute L stats_query_all [hours] conn) (\<lambda>stats.
        andthen conn_close (\<lambda>_.
        andthen (lift (shape_rows (shape_stats_row L) stats)) (\<lambda>result.
        publish_response (response_topic Stats) (PDict [(''data'', PList result)]) 200))))))))
       (\<lambda>e. publish_response (response_topic Stats) (error_body (exn_str L e)) 500)"

definition handle_time_bucket :: "lib \<Rightarrow> payload \<Rightarrow> unit act" where
  "handle_time_bucket L p =
     attempt
       (andthen (lift (loads p (PDict []))) (\<lambda>d.
        andthen (lift (py_get d ''hours'' (PInt 24))) (\<lambda>hours.
        andthen (lift (py_get d ''bucket'' (PStr ''1 hour''))) (\<lambda>bucket.
        andthen (lift (py_get d ''sensor_id'' PNone)) (\<lambda>sid.
        andthen get_db_connection (\<lambda>conn.
        andthen (if truthy sid
                 then cursor_execute L (bucket_query_one (fstr L bucket)) [sid, hours] conn
                 else cursor_execute L (bucket_query_all (fstr L bucket)) [hours] conn) (\<lambda>rows.
        andthen conn_close (\<lambda>_.
        andthen (lift (shape_rows (shape_bucket_row L) rows)) (\<lambda>result.
        publish_response (response_topic Time_bucket)
          (PDict [(''data'', PList result), (''bucket_size'', bucket)]) 200)))))))))
       (\<lambda>e. publish_response (response_topic Time_bucket) (error_body (exn_str L e)) 500)"

subsection \<open>The driver and the text of a query\<close>



text \<open>Whether a text occurs in another, character for character.\<close>

fun starts_with :: "string \<Rightarrow> string \<Rightarrow> bool" where
  "starts_with [] ys = True"
| "starts_with (x # xs) [] = False"
| "starts_with (x # xs) (y # ys) = (x = y \<and> starts_with xs ys)"

fun occurs_in :: "string \<Rightarrow> string \<Rightarrow> bool" where
  "occurs_in xs [] = (xs = [])"
| "occurs_in xs (y # ys) = (starts_with xs (y # ys) \<or> occurs_in xs ys)"

section \<open>The bridge\<close>

text \<open>
  The bytes of a message, by what \<^verbatim>\<open>msg.payload.decode('utf-8')\<close> makes of them: no
  bytes at all, bytes that are not UTF-8, or the encoding of a text.
\<close>

datatype wire = Empty_bytes | Bad_bytes | Text payload

record message =
  msg_topic :: string
  msg_payload :: wire

text \<open>\<^verbatim>\<open>msg.payload.decode('utf-8') if msg.payload else ''\<close>\<close>

fun decode :: "wire \<Rightarrow> exn + payload" where
  "decode Empty_bytes = Inr Blank"
| "decode Bad_bytes = Inl UnicodeDecodeError"
| "decode (Text p) = Inr p"

definition handlers :: "(string \<times> operation) list" where
  "handlers =
     [(request_topic Health, Health),
      (request_topic Get_all, Get_all),
      (request_topic Get_by_id, Get_by_id),
      (request_topic Create, Create),
      (request_topic Create_bulk, Create_bulk),
      (request_topic Update, Update),
      (request_topic Delete, Delete),
      (request_topic Delete_by_id, Delete_by_id),
      (request_topic Stats, Stats),
      (request_topic Time_bucket, Time_bucket)]"

fun handler :: "lib \<Rightarrow> operation \<Rightarrow> payload \<Rightarrow> unit act" where
  "handler L Health = handle_health_check L"
| "handler L Get_all = handle_get_all_sensors L"
| "handler L Get_by_id = handle_get_sensor_by_id L"
| "handler L Create = handle_create_sensor L"
| "handler L Create_bulk = handle_create_bulk_sensors L"
| "handler L Update = handle_update_sensor L"
| "handler L Delete = handle_delete_sensor L"
| "handler L Delete_by_id = handle_delete_sensor_by_id L"
| "handler L Stats = handle_get_stats L"
| "handler L Time_bucket = handle_time_bucket L"

definition log_line :: "log_entry \<Rightarrow> world \<Rightarrow> world" where
  "log_line entry w = w\<lparr>journal := journal w @ [entry]\<rparr>"

definition on_message :: "lib \<Rightarrow> message \<Rightarrow> unit act" where
  "on_message L msg w =
     (case decode (msg_payload msg) of
        Inl e \<Rightarrow> (Inl e, w)
      | Inr p \<Rightarrow>
          (case map_of handlers (msg_topic msg) of
             Some op \<Rightarrow> handler L op p (log_line (Received (msg_topic msg)) w)
           | None \<Rightarrow>
               (Inr (), log_line (No_handler (msg_topic msg)) (log_line (Received (msg_topic msg)) w))))"

section \<open>The HTTP binding\<close>

text \<open>
  The routes of \<^verbatim>\<open>app.py\<close> that write to the store. A request is taken by what Flask
  makes of it: what \<^verbatim>\<open>request.get_json()\<close> does (it raises, or returns the decoded
  body), and the values of \<^verbatim>\<open>request.args.get('time')\<close> and of
  \<^verbatim>\<open>request.args.get('sensor_id', type=int)\<close> (None when the parameter is absent or,
  for the second, not an integer). A view function returns the value it passes to
  \<^verbatim>\<open>jsonify\<close> together with the status; \<^verbatim>\<open>jsonify\<close> serialises every value of
  \<^typ>\<open>pv\<close>.
\<close>

record http_request =
  get_json :: "exn + pv"
  arg_time :: "string option"
  arg_sensor_id :: "int option"

definition respond :: "pv \<Rightarrow> int \<Rightarrow> envelope act" where
  "respond d code = ok \<lparr>status_code = code, data = d\<rparr>"

definition create_sensor_data :: "lib \<Rightarrow> http_request \<Rightarrow> envelope act" where
  "create_sensor_data L rq =
     attempt
       (andthen (lift (get_json rq)) (\<lambda>d.
        if \<not> truthy d
        then respond (error_body ''No data provided'') 400
        else
          andthen (lift (py_get d ''sensor_id'' PNone)) (\<lambda>sid.
          andthen (lift (py_get d ''temperature'' PNone)) (\<lambda>temp.
          andthen (lift (py_get d ''humidity'' PNone)) (\<lambda>hum.
          andthen (lift (py_get d ''time'' PNone)) (\<lambda>tm.
          if sid = PNone
          then respond (error_body ''sensor_id is required'') 400
          else
            andthen get_db_connection (\<lambda>conn.
            andthen (insert_row L (given_time tm) sid temp hum conn) (\<lambda>res.
            andthen (conn_commit (fst res)) (\<lambda>_.
            andthen conn_close (\<lambda>_.
            respond
              (PDict [(''message'', PStr ''Sensor data created successfully''),
                      (''data'', row_dict L (snd res))]) 201))))))))))
       (\<lambda>e. if e = IntegrityError
            then respond (error_body ''Duplicate entry for this time and sensor_id'') 409
            else respond (error_body (exn_str L e)) 500)"

text \<open>The loop over the entries is that of \<^verbatim>\<open>handle_create_bulk_sensors\<close>, line for line.\<close>

definition create_bulk_sensor_data :: "lib \<Rightarrow> http_request \<Rightarrow> envelope act" where
  "create_bulk_sensor_data L rq =
     attempt
       (andthen (lift (get_json rq)) (\<lambda>d.
        if \<not> truthy d \<or> \<not> isinstance_list d
        then respond (error_body ''Expected a list of sensor data'') 400
        else
          andthen get_db_connection (\<lambda>conn.
          andthen (insert_entries L (items d) conn 0) (\<lambda>res.
          andthen (conn_commit (fst res)) (\<lambda>_.
          andthen conn_close (\<lambda>_.
          respond
            (PDict [(''message'',
               PStr (str_int (int (snd res)) @ '' records inserted successfully''))])
            201))))))
       (\<lambda>e. respond (error_body (exn_str L e)) 500)"

definition update_sensor_data :: "lib \<Rightarrow> http_request \<Rightarrow> envelope act" where
  "update_sensor_data L rq =
     attempt
       (andthen (lift (get_json rq)) (\<lambda>d.
        if \<not> truthy d
        then respond (error_body ''No data provided'') 400
        else
          andthen (lift (py_get d ''time'' PNone)) (\<lambda>tm.
          andthen (lift (py_get d ''sensor_id'' PNone)) (\<lambda>sid.
          if \<not> truthy tm \<or> sid = PNone
          then respond
                 (error_body ''time and sensor_id are required to identify the record'') 400
          else
            andthen (lift (py_get d ''temperature'' PNone)) (\<lambda>temp.
            andthen (lift (py_get d ''humidity'' PNone)) (\<lambda>hum.
            andthen get_db_connection (\<lambda>conn.
            andthen (update_row L temp hum tm sid conn) (\<lambda>res.
            (case snd res of
               None \<Rightarrow>
                 andthen conn_close (\<lambda>_.
                 respond (error_body ''Record not found'') 404)
             | Some updated_record \<Rightarrow>
                 andthen (conn_commit (fst res)) (\<lambda>_.
                 andthen conn_close (\<lambda>_.
                 respond
                   (PDict [(''message'', PStr ''Sensor data updated successfully''),
                           (''data'', row_dict L updated_record)]) 200)))))))))))
       (\<lambda>e. respond (error_body (exn_str L e)) 500)"

text \<open>A query parameter as the Python value the view function holds: a str, an int or None.\<close>

definition arg_str :: "string option \<Rightarrow> pv" where
  "arg_str a = (case a of None \<Rightarrow> PNone | Some s \<Rightarrow> PStr s)"

definition arg_int :: "int option \<Rightarrow> pv" where
  "arg_int a = (case a of None \<Rightarrow> PNone | Some n \<Rightarrow> PInt n)"

definition delete_sensor_data :: "lib \<Rightarrow> http_request \<Rightarrow> envelope act" where
  "delete_sensor_data L rq =
     attempt
       (if \<not> truthy (arg_str (arg_time rq)) \<or> arg_int (arg_sensor_id rq) = PNone
        then respond (error_body ''time and sensor_id query parameters are required'') 400
        else
          andthen get_db_connection (\<lambda>conn.
          andthen (delete_row L (arg_str (arg_time rq)) (arg_int (arg_sensor_id rq)) conn) (\<lambda>res.
          andthen (conn_commit (fst res)) (\<lambda>_.
          andthen conn_close (\<lambda>_.
          if snd res = 0
          then respond (error_body ''Record not found'') 404
          else respond
                 (PDict [(''message'', PStr ''Sensor data deleted successfully''),
                         (''deleted_count'', PInt (int (snd res)))]) 200)))))
       (\<lambda>e. respond (error_body (exn_str L e)) 500)"

text \<open>The sensor id is part of the route (\<^verbatim>\<open>/api/sensors/<int:sensor_id>\<close>).\<close>

definition delete_all_sensor_data_by_id :: "lib \<Rightarrow> int \<Rightarrow> envelope act" where
  "delete_all_sensor_data_by_id L sid =
     attempt
       (andthen get_db_connection (\<lambda>conn.
        andthen (delete_rows_of L (PInt sid) conn) (\<lambda>res.
        andthen (conn_commit (fst res)) (\<lambda>_.
        andthen conn_close (\<lambda>_.
        respond
          (PDict [(''message'',
             PStr (''Deleted '' @ str_int (int (snd res)) @ '' records for sensor ''
                   @ str_int sid))]) 200)))))
       (\<lambda>e. respond (error_body (exn_str L e)) 500)"

section \<open>An instance for the examples\<close>

text \<open>
  One store and one world to run the handlers in: integers are read for the integer
  columns, integers and floats for the real ones, a limit is a natural number or NULL,
  time is counted in seconds, and the two instants the examples use are written in ISO
  form. The aggregate queries find nothing.
\<close>

definition sample_lib :: lib where
  "sample_lib =
     \<lparr>ts_in = (\<lambda>v. case v of
          PStr s \<Rightarrow> (if s = ''2024-01-01T00:00:00'' then Some 1704067200
                     else if s = ''2024-01-01T01:00:00'' then Some 1704070800 else None)
        | _ \<Rightarrow> None),
      sensor_in = (\<lambda>v. case v of PInt n \<Rightarrow> Some n | _ \<Rightarrow> None),
      reading_in = (\<lambda>v. case v of PInt n \<Rightarrow> Some (of_int n) | PFloat x \<Rightarrow> Some x | _ \<Rightarrow> None),
      hours_in = (\<lambda>v. case v of PInt n \<Rightarrow> Some (3600 * n) | _ \<Rightarrow> None),
      limit_in = (\<lambda>v. case v of
          PNone \<Rightarrow> Some None
        | PInt n \<Rightarrow> (if 0 \<le> n then Some (Some (nat n)) else None)
        | _ \<Rightarrow> None),
      run_select = (\<lambda>query params rows now. Inr []),
      isoformat = (\<lambda>t. if t = 1704067200 then ''2024-01-01T00:00:00''
                       else if t = 1704070800 then ''2024-01-01T01:00:00'' else []),
      exn_str = (\<lambda>e. ''error''),
      py_str = (\<lambda>v. []),
      py_float = (\<lambda>v. case v of
          PInt n \<Rightarrow> Some (of_int n) | PFloat x \<Rightarrow> Some x | PDecimal x \<Rightarrow> Some x
        | _ \<Rightarrow> None)\<rparr>"

definition idle_world :: world where
  "idle_world =
     \<lparr>table = [], db_up = True, clock = 1704070800, opened = 0, closed = 0, commits = 0,
      statements = [], sent = [], journal = []\<rparr>"

text \<open>
  A world with three rows: two of sensor 1, an hour apart, and one of sensor 0. The clock
  stands a minute after the later row.
\<close>

definition two_sensor_world :: world where
  "two_sensor_world =
     \<lparr>table =
        [\<lparr>time = 1704067200, sensor_id = 1, temperature = Some 20, humidity = None\<rparr>,
         \<lparr>time = 1704070800, sensor_id = 1, temperature = Some 21, humidity = Some 40\<rparr>,
         \<lparr>time = 1704067200, sensor_id = 0, temperature = Some 5, humidity = None\<rparr>],
      db_up = True, clock = 1704070860, opened = 0, closed = 0, commits = 0,
      statements = [], sent = [], journal = []\<rparr>"

text \<open>The answer of a handler that refuses a request: one envelope with status 400.\<close>

definition refused :: "operation \<Rightarrow> string \<Rightarrow> world \<Rightarrow> (exn + unit) \<times> world" where
  "refused op text w =
     (Inr (), w\<lparr>sent := sent w @ [(response_topic op,
                     \<lparr>status_code = 400, data = error_body text\<rparr>)],
                 journal := journal w @ [Published (response_topic op)]\<rparr>)"

text \<open>The same for a view function of the HTTP binding: status 400, the world untouched.\<close>

definition declined :: "string \<Rightarrow> world \<Rightarrow> (exn + envelope) \<times> world" where
  "declined text w = (Inr \<lparr>status_code = 400, data = error_body text\<rparr>, w)"
section \<open>What a handler leaves behind\<close>

text \<open>
  The part of the world the next lemmas follow through a handler: the messages published
  and the connections opened and closed. A step is inert when it leaves this part alone;
  \<open>ends F G m\<close> relates the part before \<open>m\<close> to the part after it, by \<open>F\<close> when
  \<open>m\<close> raises and by \<open>G\<close> when it returns.
\<close>

type_synonym view = "(string \<times> envelope) list \<times> nat \<times> nat"

definition view :: "world \<Rightarrow> view" where
  "view w = (sent w, opened w, closed w)"

definition inert :: "'a act \<Rightarrow> bool" where
  "inert m = (\<forall>w. view (snd (m w)) = view w)"

definition ends :: "(view \<Rightarrow> view \<Rightarrow> bool) \<Rightarrow> (view \<Rightarrow> view \<Rightarrow> bool) \<Rightarrow> 'a act \<Rightarrow> bool" where
  "ends F G m =
     (\<forall>w. case fst (m w) of
            Inl e \<Rightarrow> F (view w) (view (snd (m w)))
          | Inr x \<Rightarrow> G (view w) (view (snd (m w))))"

definition same :: "view \<Rightarrow> view \<Rightarrow> bool" where
  "same v v' = (v' = v)"

fun answered :: "string \<Rightarrow> int set \<Rightarrow> nat \<Rightarrow> nat \<Rightarrow> view \<Rightarrow> view \<Rightarrow> bool" where
  "answered t S i j (s, a, c) (s', a', c') =
     ((\<exists>env. s' = s @ [(t, env)] \<and> status_code env \<in> S) \<and> a' = a + i \<and> c' = c + j)"

fun held :: "view \<Rightarrow> view \<Rightarrow> bool" where
  "held (s, a, c) (s', a', c') = (s' = s \<and> a' = a \<and> c \<le> c' \<and> c' \<le> c + 1)"

fun leaked :: "view \<Rightarrow> view \<Rightarrow> bool" where
  "leaked (s, a, c) (s', a', c') =
     (s' = s \<and> a \<le> a' \<and> a' \<le> a + 1 \<and> c \<le> c' \<and> c' + a \<le> c + a')"

definition fine :: "int set" where
  "fine = {200, 201, 404}"

definition settled :: "string \<Rightarrow> view \<Rightarrow> view \<Rightarrow> bool" where
  "settled t v v' = (answered t {400} 0 0 v v' \<or> answered t fine 1 1 v v')"

lemma inert_ok: "inert (ok x)"
  by (simp add: inert_def ok_def)

lemma inert_lift: "inert (lift r)"
  by (simp add: inert_def lift_def)

lemma inert_commit: "inert (conn_commit c)"
  by (simp add: inert_def conn_commit_def view_def)

lemma inert_execute: "inert (cursor_execute L q ps c)"
  by (simp add: inert_def cursor_execute_def view_def)

lemma inert_accepted: "(\<And>v. inert (f v)) \<Longrightarrow> inert (accepted x f)"
  by (simp add: inert_def accepted_def split: option.splits)

lemma inert_pure: "inert (\<lambda>w. (g w, w))"
  by (simp add: inert_def)

lemma inert_if: "inert a \<Longrightarrow> inert b \<Longrightarrow> inert (if c then a else b)"
  by simp

lemma andthen_Inl: "fst (m w) = Inl e \<Longrightarrow> andthen m f w = (Inl e, snd (m w))"
  by (cases "m w") (simp add: andthen_def)

lemma andthen_Inr: "fst (m w) = Inr x \<Longrightarrow> andthen m f w = f x (snd (m w))"
  by (cases "m w") (simp add: andthen_def)

lemma inert_andthen:
  assumes "inert m" and "\<And>x. inert (f x)"
  shows "inert (andthen m f)"
  unfolding inert_def
proof
  fix w
  have 1: "view (snd (m w)) = view w" using assms(1) by (simp add: inert_def)
  show "view (snd (andthen m f w)) = view w"
  proof (cases "fst (m w)")
    case (Inl e)
    then show ?thesis using 1 by (simp add: andthen_Inl)
  next
    case (Inr x)
    have "view (snd (f x (snd (m w)))) = view (snd (m w))"
      using assms(2) [of x] by (simp add: inert_def)
    then show ?thesis using Inr 1 by (simp add: andthen_Inr)
  qed
qed

lemma endsD:
  "ends F G m \<Longrightarrow>
     (case fst (m w) of Inl e \<Rightarrow> F (view w) (view (snd (m w)))
      | Inr x \<Rightarrow> G (view w) (view (snd (m w))))"
  by (simp add: ends_def)

lemma ends_andthen:
  assumes "inert m" and "\<And>v. F v v" and "\<And>x. ends F G (f x)"
  shows "ends F G (andthen m f)"
  unfolding ends_def
proof
  fix w
  have 1: "view (snd (m w)) = view w" using assms(1) by (simp add: inert_def)
  show "case fst (andthen m f w) of
          Inl e \<Rightarrow> F (view w) (view (snd (andthen m f w)))
        | Inr x \<Rightarrow> G (view w) (view (snd (andthen m f w)))"
  proof (cases "fst (m w)")
    case (Inl e)
    have "andthen m f w = (Inl e, snd (m w))" using Inl by (rule andthen_Inl)
    then show ?thesis using 1 assms(2) by simp
  next
    case (Inr x)
    have a: "andthen m f w = f x (snd (m w))" using Inr by (rule andthen_Inr)
    show ?thesis using endsD [OF assms(3) [of x], of "snd (m w)"]
      unfolding a 1 .
  qed
qed

lemma ends_if: "ends F G a \<Longrightarrow> ends F G b \<Longrightarrow> ends F G (if c then a else b)"
  by simp

lemma same_refl: "same v v"
  by (simp add: same_def)

lemma held_refl: "held v v"
  by (cases v) simp

lemma leaked_refl: "leaked v v"
  by (cases v) simp

lemma ends_weaken:
  assumes "ends F G m" and "\<And>v v'. F v v' \<Longrightarrow> F' v v'" and "\<And>v v'. G v v' \<Longrightarrow> G' v v'"
  shows "ends F' G' m"
  unfolding ends_def
proof
  fix w
  show "case fst (m w) of Inl e \<Rightarrow> F' (view w) (view (snd (m w)))
        | Inr x \<Rightarrow> G' (view w) (view (snd (m w)))"
    using endsD [OF assms(1), of w] assms(2,3) by (cases "fst (m w)") simp_all
qed

lemma ends_case_option:
  "ends F G a \<Longrightarrow> (\<And>r. ends F G (b r)) \<Longrightarrow> ends F G (case x of None \<Rightarrow> a | Some r \<Rightarrow> b r)"
  by (cases x) simp_all

lemmas after_andthen = ends_andthen [where F = same, OF _ same_refl]
lemmas open_andthen = ends_andthen [where F = held, OF _ held_refl]
lemmas before_andthen = ends_andthen [where F = leaked, OF _ leaked_refl]

lemma after_publish:
  "c \<in> fine \<Longrightarrow> ends same (answered t fine 0 0) (publish_response t d c)"
  by (simp add: ends_def publish_response_def Let_def view_def same_def)

lemma before_publish: "ends leaked (settled t) (publish_response t d 400)"
  by (simp add: ends_def publish_response_def Let_def view_def settled_def)

lemma open_close:
  assumes "\<And>x. ends same (answered t fine 0 0) (f x)"
  shows "ends held (answered t fine 0 1) (andthen conn_close f)"
  unfolding ends_def
proof
  fix w :: world
  define w1 where "w1 = w\<lparr>closed := closed w + 1\<rparr>"
  have a: "andthen conn_close f w = f () w1"
    by (simp add: andthen_def conn_close_def w1_def)
  have v: "view w1 = (sent w, opened w, closed w + 1)"
    by (simp add: view_def w1_def)
  show "case fst (andthen conn_close f w) of
          Inl e \<Rightarrow> held (view w) (view (snd (andthen conn_close f w)))
        | Inr x \<Rightarrow> answered t fine 0 1 (view w) (view (snd (andthen conn_close f w)))"
    using endsD [OF assms [of "()"], of w1] unfolding a v
    by (cases "view (snd (f () w1))") (auto simp: view_def same_def split: sum.splits)
qed

lemma before_connect:
  assumes "\<And>x. ends held (answered t fine 0 1) (f x)"
  shows "ends leaked (settled t) (andthen get_db_connection f)"
  unfolding ends_def
proof
  fix w :: world
  show "case fst (andthen get_db_connection f w) of
          Inl e \<Rightarrow> leaked (view w) (view (snd (andthen get_db_connection f w)))
        | Inr x \<Rightarrow> settled t (view w) (view (snd (andthen get_db_connection f w)))"
  proof (cases "db_up w")
    case False
    then have "andthen get_db_connection f w = (Inl OperationalError, w)"
      by (simp add: andthen_def get_db_connection_def)
    then show ?thesis by (simp add: leaked_refl)
  next
    case True
    define w1 where "w1 = w\<lparr>opened := opened w + 1\<rparr>"
    have a: "andthen get_db_connection f w = f (table w) w1"
      using True by (simp add: andthen_def get_db_connection_def w1_def)
    have v: "view w1 = (sent w, opened w + 1, closed w)"
      by (simp add: view_def w1_def)
    show ?thesis
      using endsD [OF assms [of "table w"], of w1] unfolding a v
      by (cases "view (snd (f (table w) w1))")
         (auto simp: view_def settled_def split: sum.splits)
  qed
qed

definition codes :: "int set" where
  "codes = {200, 201, 400, 404, 409, 500}"

definition contract :: "string \<Rightarrow> unit act \<Rightarrow> bool" where
  "contract t m =
     (\<forall>w. \<exists>env w'. m w = (Inr (), w') \<and> sent w' = sent w @ [(t, env)]
         \<and> status_code env \<in> codes
         \<and> opened w \<le> opened w' \<and> opened w' \<le> opened w + 1
         \<and> closed w \<le> closed w' \<and> closed w' + opened w \<le> closed w + opened w'
         \<and> (status_code env \<in> fine \<longrightarrow>
               opened w' = opened w + 1 \<and> closed w' = closed w + 1)
         \<and> (status_code env = 400 \<longrightarrow> opened w' = opened w \<and> closed w' = closed w))"

lemma contract_attempt:
  assumes "ends leaked (settled t) m"
    and "\<And>e. \<exists>d c. h e = publish_response t d c \<and> dumps_ok d \<and> (c = 409 \<or> c = 500)"
  shows "contract t (attempt m h)"
  unfolding contract_def
proof
  fix w :: world
  obtain r w1 where m: "m w = (r, w1)" by (cases "m w")
  obtain s1 a1 c1 where v1: "view w1 = (s1, a1, c1)" by (cases "view w1")
  have s1: "s1 = sent w1" and a1: "a1 = opened w1" and c1: "c1 = closed w1"
    using v1 by (simp_all add: view_def)
  show "\<exists>env w'. attempt m h w = (Inr (), w') \<and> sent w' = sent w @ [(t, env)]
         \<and> status_code env \<in> codes
         \<and> opened w \<le> opened w' \<and> opened w' \<le> opened w + 1
         \<and> closed w \<le> closed w' \<and> closed w' + opened w \<le> closed w + opened w'
         \<and> (status_code env \<in> fine \<longrightarrow>
               opened w' = opened w + 1 \<and> closed w' = closed w + 1)
         \<and> (status_code env = 400 \<longrightarrow> opened w' = opened w \<and> closed w' = closed w)"
  proof (cases r)
    case (Inr u)
    have "settled t (view w) (view w1)"
      using endsD [OF assms(1), of w] m Inr by simp
    then show ?thesis using m Inr
      by (auto simp: attempt_def settled_def view_def codes_def fine_def)
  next
    case (Inl e)
    have l: "leaked (view w) (view w1)"
      using endsD [OF assms(1), of w] m Inl by simp
    obtain d c where h: "h e = publish_response t d c" and d: "dumps_ok d"
      and c: "c = 409 \<or> c = 500"
      using assms(2) [of e] by blast
    have "attempt m h w = publish_response t d c w1"
      using m Inl h by (simp add: attempt_def)
    then show ?thesis using l d c
      by (auto simp: publish_response_def Let_def view_def codes_def fine_def)
  qed
qed

lemma inert_select_sensor_limited: "inert (select_sensor_limited L a b c conn)"
  unfolding select_sensor_limited_def by (intro inert_accepted inert_pure)

lemma inert_select_all_limited: "inert (select_all_limited L b c conn)"
  unfolding select_all_limited_def by (intro inert_accepted inert_pure)

lemma inert_select_sensor: "inert (select_sensor L a b conn)"
  unfolding select_sensor_def by (intro inert_accepted inert_pure)

lemma inert_insert_row: "inert (insert_row L tm a b c conn)"
  by (simp add: inert_def insert_row_def accepted_def split: option.splits)

lemma inert_update_row: "inert (update_row L a b c d conn)"
  unfolding update_row_def by (intro inert_accepted inert_pure)

lemma inert_delete_row: "inert (delete_row L a b conn)"
  unfolding delete_row_def by (intro inert_accepted inert_pure)

lemma inert_delete_rows_of: "inert (delete_rows_of L a conn)"
  unfolding delete_rows_of_def by (intro inert_accepted inert_pure)

lemma inert_insert_entries: "inert (insert_entries L es conn n)"
proof (induction es arbitrary: conn n)
  case Nil
  show ?case by (simp add: inert_ok)
next
  case (Cons e es)
  show ?case
    unfolding insert_entries.simps
    by (intro inert_andthen inert_lift inert_if inert_insert_row Cons.IH)
qed

lemmas inert_intros =
  inert_ok inert_lift inert_commit inert_execute inert_if
  inert_select_sensor_limited inert_select_all_limited inert_select_sensor
  inert_insert_row inert_update_row inert_delete_row inert_delete_rows_of
  inert_insert_entries

lemmas phase_intros =
  before_connect open_close before_publish after_publish
  before_andthen open_andthen after_andthen ends_if ends_case_option

lemma dumps_ok_error_body [simp]: "dumps_ok (error_body s)"
  by (simp add: error_body_def)

lemma contract_try:
  assumes "ends leaked (settled t) m" and "\<And>e. dumps_ok (d e)"
  shows "contract t (attempt m (\<lambda>e. publish_response t (d e) 500))"
  using assms(1)
proof (rule contract_attempt)
  fix e
  show "\<exists>d' c. publish_response t (d e) 500 = publish_response t d' c \<and> dumps_ok d'
          \<and> (c = 409 \<or> c = 500)"
    using assms(2) by blast
qed

lemma contract_try_integrity:
  assumes "ends leaked (settled t) m" and "dumps_ok d1" and "\<And>e. dumps_ok (d e)"
  shows "contract t (attempt m (\<lambda>e. if e = IntegrityError then publish_response t d1 409
                                     else publish_response t (d e) 500))"
  using assms(1)
proof (rule contract_attempt)
  fix e
  show "\<exists>d' c. (if e = IntegrityError then publish_response t d1 409
                 else publish_response t (d e) 500) = publish_response t d' c
          \<and> dumps_ok d' \<and> (c = 409 \<or> c = 500)"
    using assms(2,3) by (cases "e = IntegrityError") auto
qed

lemma contract_health: "contract (response_topic Health) (handle_health_check L p)"
  unfolding handle_health_check_def
proof (rule contract_try)
  show "ends leaked (settled (response_topic Health))
     (andthen get_db_connection (\<lambda>conn. andthen conn_close (\<lambda>_.
        publish_response (response_topic Health)
          (PDict [(''status'', PStr ''healthy''), (''database'', PStr ''connected'')]) 200)))"
    by (intro phase_intros inert_intros) (simp add: fine_def)
qed simp

lemma contract_get_all: "contract (response_topic Get_all) (handle_get_all_sensors L p)"
  unfolding handle_get_all_sensors_def
  by (rule contract_try; (intro phase_intros inert_intros)?) (simp_all add: fine_def)

lemma contract_get_by_id: "contract (response_topic Get_by_id) (handle_get_sensor_by_id L p)"
  unfolding handle_get_sensor_by_id_def
  by (rule contract_try; (intro phase_intros inert_intros)?) (simp_all add: fine_def)

lemma contract_create: "contract (response_topic Create) (handle_create_sensor L p)"
  unfolding handle_create_sensor_def
  by (rule contract_try_integrity; (intro phase_intros inert_intros)?) (simp_all add: fine_def)

lemma contract_create_bulk: "contract (response_topic Create_bulk) (handle_create_bulk_sensors L p)"
  unfolding handle_create_bulk_sensors_def
  by (rule contract_try; (intro phase_intros inert_intros)?) (simp_all add: fine_def)

lemma contract_update: "contract (response_topic Update) (handle_update_sensor L p)"
  unfolding handle_update_sensor_def
  by (rule contract_try; (intro phase_intros inert_intros)?) (simp_all add: fine_def)

lemma contract_delete: "contract (response_topic Delete) (handle_delete_sensor L p)"
  unfolding handle_delete_sensor_def
  by (rule contract_try; (intro phase_intros inert_intros)?) (simp_all add: fine_def)

lemma contract_delete_by_id: "contract (response_topic Delete_by_id) (handle_delete_sensor_by_id L p)"
  unfolding handle_delete_sensor_by_id_def
  by (rule contract_try; (intro phase_intros inert_intros)?) (simp_all add: fine_def)

lemma contract_stats: "contract (response_topic Stats) (handle_get_stats L p)"
  unfolding handle_get_stats_def
  by (rule contract_try; (intro phase_intros inert_intros)?) (simp_all add: fine_def)

lemma contract_time_bucket: "contract (response_topic Time_bucket) (handle_time_bucket L p)"
  unfolding handle_time_bucket_def
  by (rule contract_try; (intro phase_intros inert_intros)?) (simp_all add: fine_def)

lemma handler_contract: "contract (response_topic op) (handler L op p)"
  by (cases op; simp only: handler.simps)
     (rule contract_health contract_get_all contract_get_by_id contract_create
        contract_create_bulk contract_update contract_delete contract_delete_by_id
        contract_stats contract_time_bucket)+

lemma create_blank:
  "handle_create_sensor L Blank w = refused Create ''No data provided'' w"
  by (simp add: handle_create_sensor_def attempt_def andthen_def lift_def
      publish_response_def refused_def Let_def)

lemma health_idle:
  "handle_health_check sample_lib Blank idle_world =
     (Inr (), idle_world\<lparr>opened := 1, closed := 1,
        sent := [(''sensors/health/response'',
          \<lparr>status_code = 200,
           data = PDict [(''status'', PStr ''healthy''), (''database'', PStr ''connected'')]\<rparr>)],
        journal := [Published ''sensors/health/response'']\<rparr>)"
  by (simp add: handle_health_check_def attempt_def andthen_def get_db_connection_def
      conn_close_def publish_response_def Let_def idle_world_def)

text \<open>The validation answers of the handlers that take a body.\<close>

lemmas run_defs = attempt_def andthen_def lift_def publish_response_def Let_def refused_def

lemma create_empty:
  "loads p (PDict []) = Inr d \<Longrightarrow> \<not> truthy d \<Longrightarrow>
     handle_create_sensor L p w = refused Create ''No data provided'' w"
  by (simp add: handle_create_sensor_def run_defs)

lemma create_no_sensor:
  "loads p (PDict []) = Inr d \<Longrightarrow> truthy d \<Longrightarrow> py_get d ''sensor_id'' PNone = Inr PNone \<Longrightarrow>
     handle_create_sensor L p w = refused Create ''sensor_id is required'' w"
  by (cases d) (simp_all add: handle_create_sensor_def run_defs)

lemma update_empty:
  "loads p (PDict []) = Inr d \<Longrightarrow> \<not> truthy d \<Longrightarrow>
     handle_update_sensor L p w = refused Update ''No data provided'' w"
  by (simp add: handle_update_sensor_def run_defs)

lemma update_no_key:
  "loads p (PDict []) = Inr d \<Longrightarrow> truthy d \<Longrightarrow> py_get d ''time'' PNone = Inr tm \<Longrightarrow>
   py_get d ''sensor_id'' PNone = Inr sid \<Longrightarrow> \<not> truthy tm \<or> sid = PNone \<Longrightarrow>
     handle_update_sensor L p w =
       refused Update ''time and sensor_id are required to identify the record'' w"
  by (cases d) (auto simp add: handle_update_sensor_def run_defs)

lemma delete_no_key:
  "loads p (PDict []) = Inr d \<Longrightarrow> py_get d ''time'' PNone = Inr tm \<Longrightarrow>
   py_get d ''sensor_id'' PNone = Inr sid \<Longrightarrow> \<not> truthy tm \<or> sid = PNone \<Longrightarrow>
     handle_delete_sensor L p w = refused Delete ''time and sensor_id are required'' w"
  by (cases d) (auto simp add: handle_delete_sensor_def run_defs)

lemma delete_by_id_no_sensor:
  "loads p (PDict []) = Inr d \<Longrightarrow> py_get d ''sensor_id'' PNone = Inr PNone \<Longrightarrow>
     handle_delete_sensor_by_id L p w = refused Delete_by_id ''sensor_id is required'' w"
  by (cases d) (auto simp add: handle_delete_sensor_by_id_def run_defs)

lemma create_bulk_no_list:
  "loads p (PList []) = Inr d \<Longrightarrow> \<not> truthy d \<or> \<not> isinstance_list d \<Longrightarrow>
     handle_create_bulk_sensors L p w =
       refused Create_bulk ''Expected a list of sensor data'' w"
  by (auto simp add: handle_create_bulk_sensors_def run_defs)


text \<open>Steps that neither touch the world nor depend on it.\<close>

lemma andthen_lift_Inr: "andthen (lift (Inr x)) f = f x"
  by (rule ext) (simp add: andthen_def lift_def)

lemma andthen_lift_Inl: "andthen (lift (Inl e)) f = lift (Inl e)"
  by (rule ext) (simp add: andthen_def lift_def)

lemmas pure_steps = andthen_lift_Inr andthen_lift_Inl

lemma get_all_falsy_sensor:
  assumes "map_of kv ''sensor_id'' = Some sid" and "\<not> truthy sid"
    and "map_of kv' = (map_of kv)(''sensor_id'' := None)"
  shows "handle_get_all_sensors L (Doc (PDict kv)) w = handle_get_all_sensors L (Doc (PDict kv')) w"
  using assms by (simp add: handle_get_all_sensors_def pure_steps)

lemma stats_falsy_sensor:
  assumes "map_of kv ''sensor_id'' = Some sid" and "\<not> truthy sid"
    and "map_of kv' = (map_of kv)(''sensor_id'' := None)"
  shows "handle_get_stats L (Doc (PDict kv)) w = handle_get_stats L (Doc (PDict kv')) w"
  using assms by (simp add: handle_get_stats_def pure_steps)

lemma time_bucket_falsy_sensor:
  assumes "map_of kv ''sensor_id'' = Some sid" and "\<not> truthy sid"
    and "map_of kv' = (map_of kv)(''sensor_id'' := None)"
  shows "handle_time_bucket L (Doc (PDict kv)) w = handle_time_bucket L (Doc (PDict kv')) w"
  using assms by (simp add: handle_time_bucket_def pure_steps)

text \<open>Answers that list rows can always be serialised.\<close>

lemma dumps_ok_row_dict [simp]: "dumps_ok (row_dict L r)"
  by (simp add: row_dict_def opt_float_def split: option.splits)

lemma dumps_ok_listing [simp]: "dumps_ok (listing L rows)"
  by (simp add: listing_def list_all_iff)

lemmas store_defs = get_db_connection_def conn_close_def conn_commit_def accepted_def

lemma get_by_id_answer:
  assumes "db_up w" and "loads p (PDict []) = Inr d"
    and "py_get d ''sensor_id'' PNone = Inr sid" and "sid \<noteq> PNone"
    and "py_get d ''hours'' (PInt 24) = Inr hours"
    and "sensor_in L sid = Some s" and "hours_in L hours = Some hrs"
  shows "handle_get_sensor_by_id L p w =
     (Inr (), w\<lparr>opened := opened w + 1, closed := closed w + 1,
        sent := sent w @ [(response_topic Get_by_id,
          \<lparr>status_code = 200,
           data = listing L (newest_first
             (filter (\<lambda>r. sensor_id r = s \<and> time r > clock w - hrs) (table w)))\<rparr>)],
        journal := journal w @ [Published (response_topic Get_by_id)]\<rparr>)"
  using assms
  by (simp add: handle_get_sensor_by_id_def pure_steps run_defs store_defs select_sensor_def)

text \<open>The instance, evaluated.\<close>

lemma two_sensor_world_simps [simp]:
  "db_up two_sensor_world" "clock two_sensor_world = 1704070860"
  "sent two_sensor_world = []" "opened two_sensor_world = 0" "closed two_sensor_world = 0"
  "table two_sensor_world =
     [\<lparr>time = 1704067200, sensor_id = 1, temperature = Some 20, humidity = None\<rparr>,
      \<lparr>time = 1704070800, sensor_id = 1, temperature = Some 21, humidity = Some 40\<rparr>,
      \<lparr>time = 1704067200, sensor_id = 0, temperature = Some 5, humidity = None\<rparr>]"
  by (simp_all add: two_sensor_world_def)

lemma sample_lib_simps [simp]:
  "sensor_in sample_lib (PInt n) = Some n"
  "hours_in sample_lib (PInt n) = Some (3600 * n)"
  "limit_in sample_lib (PInt 1) = Some (Some 1)"
  "limit_in sample_lib (PInt 100) = Some (Some 100)"
  by (simp_all add: sample_lib_def)





lemma set_newest_first [simp]: "set (newest_first rows) = set rows"
  by (simp add: newest_first_def)

lemma length_newest_first [simp]: "length (newest_first rows) = length rows"
  by (simp add: newest_first_def)

text \<open>The update.\<close>

lemma update_answer:
  assumes "db_up w" and "loads p (PDict []) = Inr d" and "truthy d"
    and "py_get d ''time'' PNone = Inr tm" and "py_get d ''sensor_id'' PNone = Inr sid"
    and "truthy tm" and "sid \<noteq> PNone"
    and "py_get d ''temperature'' PNone = Inr temp" and "py_get d ''humidity'' PNone = Inr hum"
    and "col_real L temp = Some x" and "col_real L hum = Some y"
    and "ts_in L tm = Some t" and "sensor_in L sid = Some s"
  shows "handle_update_sensor L p w =
     (case fetchone (map (\<lambda>r. r\<lparr>temperature := coalesce x (temperature r),
                                  humidity := coalesce y (humidity r)\<rparr>)
                      (filter (\<lambda>r. time r = t \<and> sensor_id r = s) (table w))) of
        None \<Rightarrow>
          (Inr (), w\<lparr>opened := opened w + 1, closed := closed w + 1,
             sent := sent w @ [(response_topic Update,
               \<lparr>status_code = 404, data = error_body ''Record not found''\<rparr>)],
             journal := journal w @ [Published (response_topic Update)]\<rparr>)
      | Some updated_record \<Rightarrow>
          (Inr (), w\<lparr>table := map (\<lambda>r. if time r = t \<and> sensor_id r = s
                                 then r\<lparr>temperature := coalesce x (temperature r),
                                        humidity := coalesce y (humidity r)\<rparr>
                                 else r) (table w),
             commits := commits w + 1,
             opened := opened w + 1, closed := closed w + 1,
             sent := sent w @ [(response_topic Update,
               \<lparr>status_code = 200,
                data = PDict [(''message'', PStr ''Sensor data updated successfully''),
                              (''data'', row_dict L updated_record)]\<rparr>)],
             journal := journal w @ [Published (response_topic Update)]\<rparr>))"
  using assms
  by (simp add: handle_update_sensor_def pure_steps run_defs store_defs update_row_def
      split: option.splits)

lemma fetchone_None: "fetchone rows = None \<longleftrightarrow> rows = []"
  by (cases rows) (simp_all add: fetchone_def)

lemma map_coalesce_None:
  "map f (map (\<lambda>r. if P r then g r else r) rows) = map f rows" if "\<And>r. f (g r) = f r"
  using that by (induction rows) simp_all

lemma sample_lib_columns [simp]:
  "ts_in sample_lib (PStr ''2024-01-01T00:00:00'') = Some 1704067200"
  "ts_in sample_lib (PStr ''2024-01-01T01:00:00'') = Some 1704070800"
  "col_real sample_lib PNone = Some None"
  "col_real sample_lib (PInt n) = Some (Some (of_int n))"
  "col_real sample_lib (PFloat x) = Some (Some x)"
  by (simp_all add: sample_lib_def col_real_def)

text \<open>The answer to a create request that passes validation, on a store that reads its values.\<close>

lemma create_answer:
  assumes "db_up w" and "loads p (PDict []) = Inr d" and "truthy d"
    and "py_get d ''sensor_id'' PNone = Inr sid" and "sid \<noteq> PNone"
    and "py_get d ''temperature'' PNone = Inr temp" and "py_get d ''humidity'' PNone = Inr hum"
    and "py_get d ''time'' PNone = Inr tm"
    and "col_time L (given_time tm) (clock w) = Some t" and "sensor_in L sid = Some s"
    and "col_real L temp = Some x" and "col_real L hum = Some y"
  shows "handle_create_sensor L p w =
     (if list_ex (\<lambda>r. time r = t \<and> sensor_id r = s) (table w)
      then (Inr (), w\<lparr>opened := opened w + 1,
             sent := sent w @ [(response_topic Create,
               \<lparr>status_code = 409,
                data = error_body ''Duplicate entry for this time and sensor_id''\<rparr>)],
             journal := journal w @ [Published (response_topic Create)]\<rparr>)
      else (Inr (), w\<lparr>table := table w @ [\<lparr>time = t, sensor_id = s, temperature = x, humidity = y\<rparr>],
             commits := commits w + 1,
             opened := opened w + 1, closed := closed w + 1,
             sent := sent w @ [(response_topic Create,
               \<lparr>status_code = 201,
                data = PDict [(''message'', PStr ''Sensor data created successfully''),
                   (''data'', row_dict L \<lparr>time = t, sensor_id = s, temperature = x, humidity = y\<rparr>)]\<rparr>)],
             journal := journal w @ [Published (response_topic Create)]\<rparr>))"
  using assms
  by (simp add: handle_create_sensor_def pure_steps run_defs store_defs insert_row_def)




lemma starts_with_iff: "starts_with xs ys \<longleftrightarrow> (\<exists>post. ys = xs @ post)"
  by (induction xs ys rule: starts_with.induct) auto

lemma occurs_in_iff: "occurs_in xs ys \<longleftrightarrow> (\<exists>pre post. ys = pre @ xs @ post)"
proof (induction ys)
  case Nil
  show ?case by auto
next
  case (Cons y ys)
  show ?case
  proof
    assume "occurs_in xs (y # ys)"
    then consider "starts_with xs (y # ys)" | "occurs_in xs ys" by auto
    then show "\<exists>pre post. y # ys = pre @ xs @ post"
    proof cases
      case 1
      then obtain post where "y # ys = xs @ post" using starts_with_iff by blast
      then have "y # ys = [] @ xs @ post" by simp
      then show ?thesis by blast
    next
      case 2
      then obtain pre post where "ys = pre @ xs @ post" using Cons.IH by blast
      then have "y # ys = (y # pre) @ xs @ post" by simp
      then show ?thesis by blast
    qed
  next
    assume "\<exists>pre post. y # ys = pre @ xs @ post"
    then obtain pre post where e: "y # ys = pre @ xs @ post" by blast
    show "occurs_in xs (y # ys)"
    proof (cases pre)
      case Nil
      then have "starts_with xs (y # ys)" using e starts_with_iff by auto
      then show ?thesis by simp
    next
      case (Cons p pre')
      then have "ys = pre' @ xs @ post" using e by simp
      then have "occurs_in xs ys" using Cons.IH by blast
      then show ?thesis by simp
    qed
  qed
qed



text \<open>The refusals of the HTTP binding, and a bulk request none of whose entries has a sensor id.\<close>

lemmas http_defs = attempt_def andthen_def lift_def respond_def ok_def declined_def Let_def

lemma http_create_empty:
  "get_json rq = Inr d \<Longrightarrow> \<not> truthy d \<Longrightarrow>
     create_sensor_data L rq w = declined ''No data provided'' w"
  by (simp add: create_sensor_data_def http_defs)

lemma http_create_no_sensor:
  "get_json rq = Inr d \<Longrightarrow> truthy d \<Longrightarrow> py_get d ''sensor_id'' PNone = Inr PNone \<Longrightarrow>
     create_sensor_data L rq w = declined ''sensor_id is required'' w"
  by (cases d) (simp_all add: create_sensor_data_def http_defs)

lemma http_update_empty:
  "get_json rq = Inr d \<Longrightarrow> \<not> truthy d \<Longrightarrow>
     update_sensor_data L rq w = declined ''No data provided'' w"
  by (simp add: update_sensor_data_def http_defs)

lemma http_update_no_key:
  "get_json rq = Inr d \<Longrightarrow> truthy d \<Longrightarrow> py_get d ''time'' PNone = Inr tm \<Longrightarrow>
   py_get d ''sensor_id'' PNone = Inr sid \<Longrightarrow> \<not> truthy tm \<or> sid = PNone \<Longrightarrow>
     update_sensor_data L rq w =
       declined ''time and sensor_id are required to identify the record'' w"
  by (cases d) (auto simp add: update_sensor_data_def http_defs)

lemma http_delete_no_key:
  "arg_time rq = None \<or> arg_time rq = Some [] \<or> arg_sensor_id rq = None \<Longrightarrow>
     delete_sensor_data L rq w =
       declined ''time and sensor_id query parameters are required'' w"
  by (auto simp add: delete_sensor_data_def http_defs arg_str_def arg_int_def)

lemma http_create_bulk_no_list:
  "get_json rq = Inr d \<Longrightarrow> \<not> truthy d \<or> \<not> isinstance_list d \<Longrightarrow>
     create_bulk_sensor_data L rq w = declined ''Expected a list of sensor data'' w"
  by (auto simp add: create_bulk_sensor_data_def http_defs)

lemma http_delete_by_id_connects:
  "db_up w \<Longrightarrow> opened (snd (delete_all_sensor_data_by_id L n w)) = opened w + 1"
  by (simp add: delete_all_sensor_data_by_id_def http_defs store_defs delete_rows_of_def
      split: option.splits)

lemma py_get_dict: "py_get e k dflt = Inr v \<Longrightarrow> \<exists>kv. e = PDict kv"
  by (cases e) simp_all

lemma insert_entries_skips:
  "\<forall>e\<in>set es. py_get e ''sensor_id'' PNone = Inr PNone \<Longrightarrow>
     insert_entries L es conn n w = (Inr (conn, n), w)"
proof (induction es)
  case Nil
  show ?case by (simp add: ok_def)
next
  case (Cons e es)
  then have "py_get e ''sensor_id'' PNone = Inr PNone" by simp
  moreover from this obtain kv where "e = PDict kv" using py_get_dict by blast
  ultimately show ?case using Cons by (simp add: andthen_def lift_def)
qed

lemma bulk_all_skipped:
  assumes "db_up w" and "loads p (PList []) = Inr (PList es)" and "es \<noteq> []"
    and "\<forall>e\<in>set es. py_get e ''sensor_id'' PNone = Inr PNone"
  shows "handle_create_bulk_sensors L p w =
     (Inr (), w\<lparr>commits := commits w + 1, opened := opened w + 1, closed := closed w + 1,
        sent := sent w @ [(response_topic Create_bulk,
          \<lparr>status_code = 201,
           data = PDict [(''message'', PStr ''0 records inserted successfully'')]\<rparr>)],
        journal := journal w @ [Published (response_topic Create_bulk)]\<rparr>)"
  using assms
  by (simp add: handle_create_bulk_sensors_def pure_steps andthen_def attempt_def
      publish_response_def store_defs insert_entries_skips str_int_def str_nat.simps digit_def)

lemma http_bulk_all_skipped:
  assumes "db_up w" and "get_json rq = Inr (PList es)" and "es \<noteq> []"
    and "\<forall>e\<in>set es. py_get e ''sensor_id'' PNone = Inr PNone"
  shows "create_bulk_sensor_data L rq w =
     (Inr \<lparr>status_code = 201,
           data = PDict [(''message'', PStr ''0 records inserted successfully'')]\<rparr>,
      w\<lparr>commits := commits w + 1, opened := opened w + 1, closed := closed w + 1\<rparr>)"
  using assms
  by (simp add: create_bulk_sensor_data_def pure_steps andthen_def attempt_def
      respond_def ok_def store_defs insert_entries_skips str_int_def str_nat.simps digit_def)









section \<open>The bridge and payloads that are not UTF-8\<close>

text \<open>
  C1. Every request message on a bound request topic is answered by exactly one envelope
  on the operation's response topic, and no exception escapes to the transport layer.
  This does not hold of \<^verbatim>\<open>on_message\<close>: the bytes of the payload are
  decoded before the handler is chosen and outside every \<^verbatim>\<open>try\<close>, so a
  request on \<^verbatim>\<open>sensors/get_all/request\<close> whose payload is not UTF-8 raises
  UnicodeDecodeError out of the callback, and nothing is published or logged.
\<close>

theorem undecodable_request_escapes:
  "on_message L \<lparr>msg_topic = ''sensors/get_all/request'', msg_payload = Bad_bytes\<rparr> w
     = (Inl UnicodeDecodeError, w)"
  by (simp add: on_message_def)

text \<open>
  C8. A message on a topic that is not bound is logged and dropped: no handler runs,
  nothing is published, the store is not touched, and the bridge does not raise.
  This does not hold of \<^verbatim>\<open>on_message\<close> when the payload is not UTF-8: on the
  unbound topic \<^verbatim>\<open>sensors/unknown\<close> the same decoding raises before the topic is
  looked at, and before the message is logged.
\<close>

theorem undecodable_unbound_message_raises:
  "on_message L \<lparr>msg_topic = ''sensors/unknown'', msg_payload = Bad_bytes\<rparr> w
     = (Inl UnicodeDecodeError, w)"
  by (simp add: on_message_def)

section \<open>Validation\<close>

text \<open>
  C2. For Create, CreateBulk, Update, Delete and DeleteById, on either transport, an
  empty payload is answered with status 400 and "No data provided", then a missing
  identity field with 400 and a message naming the field, and only then is the store
  called. As stated this fails: the delete handler of the bridge has no check of its own
  for an empty payload, and answers it with the message that names the fields; and the
  delete route of the HTTP binding, which reads the query string and no body, answers
  with yet another message.
\<close>

theorem delete_without_body_names_the_fields:
  "sent (snd (handle_delete_sensor sample_lib Blank idle_world))
     = [(''sensors/delete/response'',
         \<lparr>status_code = 400,
          data = PDict [(''error'', PStr ''time and sensor_id are required'')]\<rparr>)]
   \<and> PDict [(''error'', PStr ''time and sensor_id are required'')]
       \<noteq> PDict [(''error'', PStr ''No data provided'')]
   \<and> delete_sensor_data sample_lib
         \<lparr>get_json = Inr PNone, arg_time = None, arg_sensor_id = None\<rparr> idle_world
     = (Inr \<lparr>status_code = 400,
             data = PDict [(''error'',
               PStr ''time and sensor_id query parameters are required'')]\<rparr>,
        idle_world)"
  by (simp add: handle_delete_sensor_def run_defs error_body_def idle_world_def
      delete_sensor_data_def http_defs arg_str_def arg_int_def)

text \<open>
  C2, as amended. On both transports, Create and Update answer a body that is empty
  (or any falsy JSON value) with 400 "No data provided", and then a missing
  \<^verbatim>\<open>sensor_id\<close> (Create) or a missing \<^verbatim>\<open>time\<close> or \<^verbatim>\<open>sensor_id\<close> (Update) with 400
  and a message naming the field; CreateBulk answers an empty body and one that is not
  a list with 400 "Expected a list of sensor data", and refuses no list for entries
  without \<^verbatim>\<open>sensor_id\<close>: on a reachable store, a list that holds only such entries is
  answered with 201 and "0 records inserted successfully". Delete has no separate check
  for an empty payload: the bridge answers it, like any payload without \<^verbatim>\<open>time\<close> or
  \<^verbatim>\<open>sensor_id\<close>, with 400 "time and sensor_id are required", and the HTTP binding
  answers a query string without one of them with 400 "time and sensor_id query
  parameters are required". DeleteById answers a payload without \<^verbatim>\<open>sensor_id\<close>, an
  empty one included, with 400 "sensor_id is required" on the bridge; on HTTP the
  sensor id is part of the route, nothing is validated and the store is connected to
  for every request. Where a request is refused, the world is left as it was but for
  the answer: no connection to the store is opened.
\<close>

theorem validation_before_store:
  "(loads p (PDict []) = Inr d \<and> \<not> truthy d \<longrightarrow>
      handle_create_sensor L p w = refused Create ''No data provided'' w
      \<and> handle_update_sensor L p w = refused Update ''No data provided'' w)
   \<and> (loads p (PDict []) = Inr d \<and> truthy d \<and> py_get d ''sensor_id'' PNone = Inr PNone \<longrightarrow>
      handle_create_sensor L p w = refused Create ''sensor_id is required'' w)
   \<and> (loads p (PDict []) = Inr d \<and> truthy d \<and> py_get d ''time'' PNone = Inr tm
        \<and> py_get d ''sensor_id'' PNone = Inr sid \<and> (\<not> truthy tm \<or> sid = PNone) \<longrightarrow>
      handle_update_sensor L p w =
        refused Update ''time and sensor_id are required to identify the record'' w)
   \<and> (loads p (PDict []) = Inr d \<and> py_get d ''time'' PNone = Inr tm
        \<and> py_get d ''sensor_id'' PNone = Inr sid \<and> (\<not> truthy tm \<or> sid = PNone) \<longrightarrow>
      handle_delete_sensor L p w = refused Delete ''time and sensor_id are required'' w)
   \<and> (loads p (PDict []) = Inr d \<and> py_get d ''sensor_id'' PNone = Inr PNone \<longrightarrow>
      handle_delete_sensor_by_id L p w = refused Delete_by_id ''sensor_id is required'' w)
   \<and> (loads p (PList []) = Inr d \<and> (\<not> truthy d \<or> \<not> isinstance_list d) \<longrightarrow>
      handle_create_bulk_sensors L p w =
        refused Create_bulk ''Expected a list of sensor data'' w)
   \<and> (db_up w \<and> loads p (PList []) = Inr (PList es) \<and> es \<noteq> []
        \<and> (\<forall>e\<in>set es. py_get e ''sensor_id'' PNone = Inr PNone) \<longrightarrow>
      handle_create_bulk_sensors L p w =
        (Inr (), w\<lparr>commits := commits w + 1, opened := opened w + 1, closed := closed w + 1,
           sent := sent w @ [(response_topic Create_bulk,
             \<lparr>status_code = 201,
              data = PDict [(''message'', PStr ''0 records inserted successfully'')]\<rparr>)],
           journal := journal w @ [Published (response_topic Create_bulk)]\<rparr>))
   \<and> (get_json rq = Inr d \<and> \<not> truthy d \<longrightarrow>
      create_sensor_data L rq w = declined ''No data provided'' w
      \<and> update_sensor_data L rq w = declined ''No data provided'' w)
   \<and> (get_json rq = Inr d \<and> truthy d \<and> py_get d ''sensor_id'' PNone = Inr PNone \<longrightarrow>
      create_sensor_data L rq w = declined ''sensor_id is required'' w)
   \<and> (get_json rq = Inr d \<and> truthy d \<and> py_get d ''time'' PNone = Inr tm
        \<and> py_get d ''sensor_id'' PNone = Inr sid \<and> (\<not> truthy tm \<or> sid = PNone) \<longrightarrow>
      update_sensor_data L rq w =
        declined ''time and sensor_id are required to identify the record'' w)
   \<and> (arg_time rq = None \<or> arg_time rq = Some [] \<or> arg_sensor_id rq = None \<longrightarrow>
      delete_sensor_data L rq w =
        declined ''time and sensor_id query parameters are required'' w)
   \<and> (get_json rq = Inr d \<and> (\<not> truthy d \<or> \<not> isinstance_list d) \<longrightarrow>
      create_bulk_sensor_data L rq w = declined ''Expected a list of sensor data'' w)
   \<and> (db_up w \<and> get_json rq = Inr (PList es) \<and> es \<noteq> []
        \<and> (\<forall>e\<in>set es. py_get e ''sensor_id'' PNone = Inr PNone) \<longrightarrow>
      create_bulk_sensor_data L rq w =
        (Inr \<lparr>status_code = 201,
              data = PDict [(''message'', PStr ''0 records inserted successfully'')]\<rparr>,
         w\<lparr>commits := commits w + 1, opened := opened w + 1, closed := closed w + 1\<rparr>))
   \<and> (db_up w \<longrightarrow> opened (snd (delete_all_sensor_data_by_id L n w)) = opened w + 1)"
proof -
  have bridge: "(loads p (PDict []) = Inr d \<and> \<not> truthy d \<longrightarrow>
      handle_create_sensor L p w = refused Create ''No data provided'' w
      \<and> handle_update_sensor L p w = refused Update ''No data provided'' w)
   \<and> (loads p (PDict []) = Inr d \<and> truthy d \<and> py_get d ''sensor_id'' PNone = Inr PNone \<longrightarrow>
      handle_create_sensor L p w = refused Create ''sensor_id is required'' w)
   \<and> (loads p (PDict []) = Inr d \<and> truthy d \<and> py_get d ''time'' PNone = Inr tm
        \<and> py_get d ''sensor_id'' PNone = Inr sid \<and> (\<not> truthy tm \<or> sid = PNone) \<longrightarrow>
      handle_update_sensor L p w =
        refused Update ''time and sensor_id are required to identify the record'' w)
   \<and> (loads p (PDict []) = Inr d \<and> py_get d ''time'' PNone = Inr tm
        \<and> py_get d ''sensor_id'' PNone = Inr sid \<and> (\<not> truthy tm \<or> sid = PNone) \<longrightarrow>
      handle_delete_sensor L p w = refused Delete ''time and sensor_id are required'' w)
   \<and> (loads p (PDict []) = Inr d \<and> py_get d ''sensor_id'' PNone = Inr PNone \<longrightarrow>
      handle_delete_sensor_by_id L p w = refused Delete_by_id ''sensor_id is required'' w)
   \<and> (loads p (PList []) = Inr d \<and> (\<not> truthy d \<or> \<not> isinstance_list d) \<longrightarrow>
      handle_create_bulk_sensors L p w =
        refused Create_bulk ''Expected a list of sensor data'' w)"
    using create_empty [of p d L w] create_no_sensor [of p d L w] update_empty [of p d L w]
      update_no_key [of p d tm sid L w] delete_no_key [of p d tm sid L w]
      delete_by_id_no_sensor [of p d L w] create_bulk_no_list [of p d L w]
    by blast
  have skipped: "db_up w \<and> loads p (PList []) = Inr (PList es) \<and> es \<noteq> []
        \<and> (\<forall>e\<in>set es. py_get e ''sensor_id'' PNone = Inr PNone) \<longrightarrow>
      handle_create_bulk_sensors L p w =
        (Inr (), w\<lparr>commits := commits w + 1, opened := opened w + 1, closed := closed w + 1,
           sent := sent w @ [(response_topic Create_bulk,
             \<lparr>status_code = 201,
              data = PDict [(''message'', PStr ''0 records inserted successfully'')]\<rparr>)],
           journal := journal w @ [Published (response_topic Create_bulk)]\<rparr>)"
    using bulk_all_skipped [of w p es L] by blast
  have http: "(get_json rq = Inr d \<and> \<not> truthy d \<longrightarrow>
      create_sensor_data L rq w = declined ''No data provided'' w
      \<and> update_sensor_data L rq w = declined ''No data provided'' w)
   \<and> (get_json rq = Inr d \<and> truthy d \<and> py_get d ''sensor_id'' PNone = Inr PNone \<longrightarrow>
      create_sensor_data L rq w = declined ''sensor_id is required'' w)
   \<and> (get_json rq = Inr d \<and> truthy d \<and> py_get d ''time'' PNone = Inr tm
        \<and> py_get d ''sensor_id'' PNone = Inr sid \<and> (\<not> truthy tm \<or> sid = PNone) \<longrightarrow>
      update_sensor_data L rq w =
        declined ''time and sensor_id are required to identify the record'' w)
   \<and> (arg_time rq = None \<or> arg_time rq = Some [] \<or> arg_sensor_id rq = None \<longrightarrow>
      delete_sensor_data L rq w =
        declined ''time and sensor_id query parameters are required'' w)
   \<and> (get_json rq = Inr d \<and> (\<not> truthy d \<or> \<not> isinstance_list d) \<longrightarrow>
      create_bulk_sensor_data L rq w = declined ''Expected a list of sensor data'' w)"
    using http_create_empty [of rq d L w] http_create_no_sensor [of rq d L w]
      http_update_empty [of rq d L w] http_update_no_key [of rq d tm sid L w]
      http_delete_no_key [of rq L w] http_create_bulk_no_list [of rq d L w]
    by blast
  have http_skipped: "db_up w \<and> get_json rq = Inr (PList es) \<and> es \<noteq> []
        \<and> (\<forall>e\<in>set es. py_get e ''sensor_id'' PNone = Inr PNone) \<longrightarrow>
      create_bulk_sensor_data L rq w =
        (Inr \<lparr>status_code = 201,
              data = PDict [(''message'', PStr ''0 records inserted successfully'')]\<rparr>,
         w\<lparr>commits := commits w + 1, opened := opened w + 1, closed := closed w + 1\<rparr>)"
    using http_bulk_all_skipped [of w rq es L] by blast
  have by_id: "db_up w \<longrightarrow> opened (snd (delete_all_sensor_data_by_id L n w)) = opened w + 1"
    using http_delete_by_id_connects [of w L n] by blast
  show ?thesis
    using bridge skipped http http_skipped by_id
    by (elim conjE, intro conjI) assumption+
qed

theorem validation_before_store_witness:
  "handle_create_sensor sample_lib Blank idle_world
     = refused Create ''No data provided'' idle_world
   \<and> handle_update_sensor sample_lib (Doc (PDict [])) idle_world
     = refused Update ''No data provided'' idle_world
   \<and> handle_create_sensor sample_lib (Doc (PDict [(''temperature'', PFloat 25.5)])) idle_world
     = refused Create ''sensor_id is required'' idle_world
   \<and> handle_update_sensor sample_lib (Doc (PDict [(''sensor_id'', PInt 1)])) idle_world
     = refused Update ''time and sensor_id are required to identify the record'' idle_world
   \<and> handle_delete_sensor sample_lib (Doc (PDict [(''time'', PStr ''2024-01-01T00:00:00'')]))
       idle_world
     = refused Delete ''time and sensor_id are required'' idle_world
   \<and> handle_delete_sensor_by_id sample_lib Blank idle_world
     = refused Delete_by_id ''sensor_id is required'' idle_world
   \<and> handle_create_bulk_sensors sample_lib (Doc (PDict [(''sensor_id'', PInt 1)])) idle_world
     = refused Create_bulk ''Expected a list of sensor data'' idle_world
   \<and> sent (snd (handle_create_bulk_sensors sample_lib
        (Doc (PList [PDict [(''temperature'', PFloat 25.5)]])) idle_world))
     = [(''sensors/create_bulk/response'',
         \<lparr>status_code = 201,
          data = PDict [(''message'', PStr ''0 records inserted successfully'')]\<rparr>)]
   \<and> create_sensor_data sample_lib
        \<lparr>get_json = Inr (PDict []), arg_time = None, arg_sensor_id = None\<rparr> idle_world
     = declined ''No data provided'' idle_world
   \<and> update_sensor_data sample_lib
        \<lparr>get_json = Inr (PDict []), arg_time = None, arg_sensor_id = None\<rparr> idle_world
     = declined ''No data provided'' idle_world
   \<and> create_sensor_data sample_lib
        \<lparr>get_json = Inr (PDict [(''temperature'', PFloat 25.5)]), arg_time = None,
          arg_sensor_id = None\<rparr> idle_world
     = declined ''sensor_id is required'' idle_world
   \<and> update_sensor_data sample_lib
        \<lparr>get_json = Inr (PDict [(''sensor_id'', PInt 1)]), arg_time = None,
          arg_sensor_id = None\<rparr> idle_world
     = declined ''time and sensor_id are required to identify the record'' idle_world
   \<and> delete_sensor_data sample_lib
        \<lparr>get_json = Inr PNone, arg_time = Some ''2024-01-01T00:00:00'',
          arg_sensor_id = None\<rparr> idle_world
     = declined ''time and sensor_id query parameters are required'' idle_world
   \<and> create_bulk_sensor_data sample_lib
        \<lparr>get_json = Inr (PDict [(''sensor_id'', PInt 1)]), arg_time = None,
          arg_sensor_id = None\<rparr> idle_world
     = declined ''Expected a list of sensor data'' idle_world
   \<and> create_bulk_sensor_data sample_lib
        \<lparr>get_json = Inr (PList [PDict [(''temperature'', PFloat 25.5)]]), arg_time = None,
          arg_sensor_id = None\<rparr> idle_world
     = (Inr \<lparr>status_code = 201,
             data = PDict [(''message'', PStr ''0 records inserted successfully'')]\<rparr>,
        idle_world\<lparr>commits := 1, opened := 1, closed := 1\<rparr>)
   \<and> opened (snd (delete_all_sensor_data_by_id sample_lib 1 idle_world)) = 1"
proof -
  have up: "db_up idle_world" and zero: "opened idle_world = 0" "closed idle_world = 0"
    "commits idle_world = 0" "sent idle_world = []"
    by (simp_all add: idle_world_def)
  show ?thesis
    using
      validation_before_store [of Blank "PDict []" sample_lib idle_world]
      validation_before_store [of "Doc (PDict [])" "PDict []" sample_lib idle_world]
      validation_before_store [of "Doc (PDict [(''temperature'', PFloat 25.5)])"
        "PDict [(''temperature'', PFloat 25.5)]" sample_lib idle_world]
      validation_before_store [of "Doc (PDict [(''sensor_id'', PInt 1)])"
        "PDict [(''sensor_id'', PInt 1)]" sample_lib idle_world PNone "PInt 1"]
      validation_before_store [of "Doc (PDict [(''time'', PStr ''2024-01-01T00:00:00'')])"
        "PDict [(''time'', PStr ''2024-01-01T00:00:00'')]" sample_lib idle_world
        "PStr ''2024-01-01T00:00:00''" PNone]
      validation_before_store [of "Doc (PDict [(''sensor_id'', PInt 1)])"
        "PDict [(''sensor_id'', PInt 1)]" sample_lib idle_world]
      validation_before_store [of "Doc (PList [PDict [(''temperature'', PFloat 25.5)]])" d
        sample_lib idle_world tm sid "[PDict [(''temperature'', PFloat 25.5)]]"]
      validation_before_store [of p "PDict []" sample_lib idle_world tm sid es
        "\<lparr>get_json = Inr (PDict []), arg_time = None, arg_sensor_id = None\<rparr>"]
      validation_before_store [of p "PDict [(''temperature'', PFloat 25.5)]" sample_lib
        idle_world tm sid es
        "\<lparr>get_json = Inr (PDict [(''temperature'', PFloat 25.5)]), arg_time = None,
          arg_sensor_id = None\<rparr>"]
      validation_before_store [of p "PDict [(''sensor_id'', PInt 1)]" sample_lib
        idle_world PNone "PInt 1" es
        "\<lparr>get_json = Inr (PDict [(''sensor_id'', PInt 1)]), arg_time = None,
          arg_sensor_id = None\<rparr>"]
      validation_before_store [of p d sample_lib idle_world tm sid es
        "\<lparr>get_json = Inr PNone, arg_time = Some ''2024-01-01T00:00:00'',
          arg_sensor_id = None\<rparr>"]
      validation_before_store [of p d sample_lib idle_world tm sid
        "[PDict [(''temperature'', PFloat 25.5)]]"
        "\<lparr>get_json = Inr (PList [PDict [(''temperature'', PFloat 25.5)]]), arg_time = None,
          arg_sensor_id = None\<rparr>" 1]
    by (simp add: up zero)
qed

section \<open>Bulk insert\<close>




section \<open>Update\<close>

text \<open>
  C4. An Update request that names a stored row, by its time and sensor id, replaces the
  fields it supplies and leaves the fields it omits at their stored value (COALESCE:
  a field that is absent or null is never written as NULL); an Update request whose
  time and sensor id match no row is answered with 404, and neither changes the table
  nor commits. The request is one the store can read: it is reachable and accepts the
  four parameters.
\<close>

theorem update_coalesces:
  assumes "db_up w" and "loads p (PDict []) = Inr d" and "truthy d"
    and "py_get d ''time'' PNone = Inr tm" and "py_get d ''sensor_id'' PNone = Inr sid"
    and "truthy tm" and "sid \<noteq> PNone"
    and "py_get d ''temperature'' PNone = Inr temp" and "py_get d ''humidity'' PNone = Inr hum"
    and "col_real L temp = Some x" and "col_real L hum = Some y"
    and "ts_in L tm = Some t" and "sensor_in L sid = Some s"
  shows "\<exists>env w'. handle_update_sensor L p w = (Inr (), w')
     \<and> sent w' = sent w @ [(response_topic Update, env)]
     \<and> (if list_ex (\<lambda>r. time r = t \<and> sensor_id r = s) (table w)
        then status_code env = 200
           \<and> table w' = map (\<lambda>r. if time r = t \<and> sensor_id r = s
                                 then r\<lparr>temperature := coalesce x (temperature r),
                                        humidity := coalesce y (humidity r)\<rparr>
                                 else r) (table w)
        else status_code env = 404 \<and> table w' = table w \<and> commits w' = commits w)
     \<and> (temp = PNone \<longrightarrow> map temperature (table w') = map temperature (table w))
     \<and> (hum = PNone \<longrightarrow> map humidity (table w') = map humidity (table w))
     \<and> (\<forall>v. x = Some v \<longrightarrow>
           (\<forall>r \<in> set (table w'). time r = t \<and> sensor_id r = s \<longrightarrow> temperature r = Some v))
     \<and> (\<forall>v. y = Some v \<longrightarrow>
           (\<forall>r \<in> set (table w'). time r = t \<and> sensor_id r = s \<longrightarrow> humidity r = Some v))"
proof -
  define hit :: "reading \<Rightarrow> bool" where "hit = (\<lambda>r. time r = t \<and> sensor_id r = s)"
  define upd :: "reading \<Rightarrow> reading" where "upd = (\<lambda>r. r\<lparr>temperature := coalesce x (temperature r),
                                  humidity := coalesce y (humidity r)\<rparr>)"
  note ans = update_answer [OF assms]
  have tx: "temp = PNone \<Longrightarrow> x = None" using assms(10) by (simp add: col_real_def)
  have hy: "hum = PNone \<Longrightarrow> y = None" using assms(11) by (simp add: col_real_def)
  show ?thesis
  proof (cases "filter hit (table w)")
    case Nil
    then have no: "\<not> list_ex hit (table w)"
      by (simp add: list_ex_iff filter_empty_conv)
    have "\<forall>r \<in> set (table w). \<not> hit r" using Nil by (simp add: filter_empty_conv)
    then have none: "\<forall>r \<in> set (table w). \<not> (time r = t \<and> sensor_id r = s)"
      by (simp add: hit_def)
    define env where "env = \<lparr>status_code = 404, data = error_body ''Record not found''\<rparr>"
    define w' where "w' = w\<lparr>opened := opened w + 1, closed := closed w + 1,
             sent := sent w @ [(response_topic Update, env)],
             journal := journal w @ [Published (response_topic Update)]\<rparr>"
    have f0: "filter (\<lambda>r. time r = t \<and> sensor_id r = s) (table w) = []"
      using Nil unfolding hit_def .
    have c1: "handle_update_sensor L p w = (Inr (), w')"
      unfolding ans f0 w'_def env_def by (simp add: fetchone_def)
    have c2: "sent w' = sent w @ [(response_topic Update, env)]"
      by (simp add: w'_def)
    have tb: "table w' = table w" and cm: "commits w' = commits w"
      by (simp_all add: w'_def)
    have c3: "if list_ex (\<lambda>r. time r = t \<and> sensor_id r = s) (table w)
        then status_code env = 200
           \<and> table w' = map (\<lambda>r. if time r = t \<and> sensor_id r = s
                                 then r\<lparr>temperature := coalesce x (temperature r),
                                        humidity := coalesce y (humidity r)\<rparr>
                                 else r) (table w)
        else status_code env = 404 \<and> table w' = table w \<and> commits w' = commits w"
      using no tb cm by (simp add: hit_def env_def)
    have c4: "temp = PNone \<longrightarrow> map temperature (table w') = map temperature (table w)"
      and c5: "hum = PNone \<longrightarrow> map humidity (table w') = map humidity (table w)"
      by (simp_all add: tb)
    have c6: "\<forall>v. x = Some v \<longrightarrow>
           (\<forall>r \<in> set (table w'). time r = t \<and> sensor_id r = s \<longrightarrow> temperature r = Some v)"
      and c7: "\<forall>v. y = Some v \<longrightarrow>
           (\<forall>r \<in> set (table w'). time r = t \<and> sensor_id r = s \<longrightarrow> humidity r = Some v)"
      using none unfolding tb by blast+
    show ?thesis
      by (rule exI [of _ env], rule exI [of _ w']) (intro conjI c1 c2 c3 c4 c5 c6 c7)
  next
    case (Cons r0 rest)
    have "r0 \<in> set (filter hit (table w))"
      unfolding Cons by simp
    then have r0: "hit r0" and r0in: "r0 \<in> set (table w)"
      by simp_all
    have yes: "list_ex (\<lambda>r. time r = t \<and> sensor_id r = s) (table w)"
      using r0 r0in unfolding hit_def list_ex_iff by blast
    define env where "env = \<lparr>status_code = 200,
                data = PDict [(''message'', PStr ''Sensor data updated successfully''),
                              (''data'', row_dict L (upd r0))]\<rparr>"
    define w' where "w' = w\<lparr>table := map (\<lambda>r. if hit r then upd r else r) (table w),
             commits := commits w + 1,
             opened := opened w + 1, closed := closed w + 1,
             sent := sent w @ [(response_topic Update, env)],
             journal := journal w @ [Published (response_topic Update)]\<rparr>"
    have f1: "fetchone (map upd (filter hit (table w))) = Some (upd r0)"
      unfolding Cons by (simp add: fetchone_def)
    have c1: "handle_update_sensor L p w = (Inr (), w')"
      unfolding ans f1 [unfolded hit_def upd_def] w'_def env_def hit_def upd_def by simp
    have c2: "sent w' = sent w @ [(response_topic Update, env)]"
      by (simp add: w'_def)
    have tb: "table w' = map (\<lambda>r. if hit r then upd r else r) (table w)"
      by (simp add: w'_def)
    have tb': "table w' = map (\<lambda>r. if time r = t \<and> sensor_id r = s
                                 then r\<lparr>temperature := coalesce x (temperature r),
                                        humidity := coalesce y (humidity r)\<rparr>
                                 else r) (table w)"
      unfolding tb hit_def upd_def ..
    have st: "status_code env = 200" by (simp add: env_def)
    have c3: "if list_ex (\<lambda>r. time r = t \<and> sensor_id r = s) (table w)
        then status_code env = 200
           \<and> table w' = map (\<lambda>r. if time r = t \<and> sensor_id r = s
                                 then r\<lparr>temperature := coalesce x (temperature r),
                                        humidity := coalesce y (humidity r)\<rparr>
                                 else r) (table w)
        else status_code env = 404 \<and> table w' = table w \<and> commits w' = commits w"
      using yes st tb' by simp
    have u1: "x = None \<Longrightarrow> temperature (upd r) = temperature r" for r
      by (simp add: upd_def)
    have u2: "y = None \<Longrightarrow> humidity (upd r) = humidity r" for r
      by (simp add: upd_def)
    have c4: "temp = PNone \<longrightarrow> map temperature (table w') = map temperature (table w)"
      unfolding tb using tx u1 by (auto intro: map_coalesce_None)
    have c5: "hum = PNone \<longrightarrow> map humidity (table w') = map humidity (table w)"
      unfolding tb using hy u2 by (auto intro: map_coalesce_None)
    have k: "hit (upd r) = hit r" for r
      by (simp add: upd_def hit_def)
    have c6': "x = Some v \<Longrightarrow> r \<in> set (table w') \<Longrightarrow> hit r \<Longrightarrow> temperature r = Some v" for v r
    proof -
      assume xv: "x = Some v" and rin: "r \<in> set (table w')" and hr: "hit r"
      from rin obtain q where q: "q \<in> set (table w)" and rq: "r = (if hit q then upd q else q)"
        unfolding tb by auto
      have "hit q" using hr rq k by (cases "hit q") auto
      then have "r = upd q" using rq by simp
      then show ?thesis using xv by (simp add: upd_def)
    qed
    have c7': "y = Some v \<Longrightarrow> r \<in> set (table w') \<Longrightarrow> hit r \<Longrightarrow> humidity r = Some v" for v r
    proof -
      assume yv: "y = Some v" and rin: "r \<in> set (table w')" and hr: "hit r"
      from rin obtain q where q: "q \<in> set (table w)" and rq: "r = (if hit q then upd q else q)"
        unfolding tb by auto
      have "hit q" using hr rq k by (cases "hit q") auto
      then have "r = upd q" using rq by simp
      then show ?thesis using yv by (simp add: upd_def)
    qed
    have c6: "\<forall>v. x = Some v \<longrightarrow>
           (\<forall>r \<in> set (table w'). time r = t \<and> sensor_id r = s \<longrightarrow> temperature r = Some v)"
      using c6' unfolding hit_def by blast
    have c7: "\<forall>v. y = Some v \<longrightarrow>
           (\<forall>r \<in> set (table w'). time r = t \<and> sensor_id r = s \<longrightarrow> humidity r = Some v)"
      using c7' unfolding hit_def by blast
    show ?thesis
      by (rule exI [of _ env], rule exI [of _ w']) (intro conjI c1 c2 c3 c4 c5 c6 c7)
  qed
qed

theorem update_coalesces_witness:
  "table (snd (handle_update_sensor sample_lib
       (Doc (PDict [(''time'', PStr ''2024-01-01T01:00:00''), (''sensor_id'', PInt 1),
                    (''temperature'', PInt 30)])) two_sensor_world))
     = [\<lparr>time = 1704067200, sensor_id = 1, temperature = Some 20, humidity = None\<rparr>,
        \<lparr>time = 1704070800, sensor_id = 1, temperature = Some 30, humidity = Some 40\<rparr>,
        \<lparr>time = 1704067200, sensor_id = 0, temperature = Some 5, humidity = None\<rparr>]
   \<and> table (snd (handle_update_sensor sample_lib
       (Doc (PDict [(''time'', PStr ''2024-01-01T01:00:00''), (''sensor_id'', PInt 9),
                    (''temperature'', PInt 30)])) two_sensor_world))
     = table two_sensor_world"
proof -
  have "\<exists>env w'. handle_update_sensor sample_lib
       (Doc (PDict [(''time'', PStr ''2024-01-01T01:00:00''), (''sensor_id'', PInt 1),
                    (''temperature'', PInt 30)])) two_sensor_world = (Inr (), w')
     \<and> sent w' = sent two_sensor_world @ [(response_topic Update, env)]
     \<and> (if list_ex (\<lambda>r. time r = 1704070800 \<and> sensor_id r = 1) (table two_sensor_world)
        then status_code env = 200
           \<and> table w' = map (\<lambda>r. if time r = 1704070800 \<and> sensor_id r = 1
                                 then r\<lparr>temperature := coalesce (Some 30) (temperature r),
                                        humidity := coalesce None (humidity r)\<rparr>
                                 else r) (table two_sensor_world)
        else status_code env = 404 \<and> table w' = table two_sensor_world
           \<and> commits w' = commits two_sensor_world)
     \<and> (PInt 30 = PNone \<longrightarrow> map temperature (table w') = map temperature (table two_sensor_world))
     \<and> (PNone = PNone \<longrightarrow> map humidity (table w') = map humidity (table two_sensor_world))
     \<and> (\<forall>v. Some 30 = Some v \<longrightarrow>
           (\<forall>r \<in> set (table w'). time r = 1704070800 \<and> sensor_id r = 1 \<longrightarrow> temperature r = Some v))
     \<and> (\<forall>v. None = Some v \<longrightarrow>
           (\<forall>r \<in> set (table w'). time r = 1704070800 \<and> sensor_id r = 1 \<longrightarrow> humidity r = Some v))"
    by (rule update_coalesces [where d = "PDict [(''time'', PStr ''2024-01-01T01:00:00''),
          (''sensor_id'', PInt 1), (''temperature'', PInt 30)]"
          and tm = "PStr ''2024-01-01T01:00:00''" and sid = "PInt 1"]) simp_all
  then obtain w1 where a: "handle_update_sensor sample_lib
       (Doc (PDict [(''time'', PStr ''2024-01-01T01:00:00''), (''sensor_id'', PInt 1),
                    (''temperature'', PInt 30)])) two_sensor_world = (Inr (), w1)"
    and b: "table w1 = map (\<lambda>r. if time r = 1704070800 \<and> sensor_id r = 1
                                 then r\<lparr>temperature := coalesce (Some 30) (temperature r),
                                        humidity := coalesce None (humidity r)\<rparr>
                                 else r) (table two_sensor_world)"
    by auto
  have "\<exists>env w'. handle_update_sensor sample_lib
       (Doc (PDict [(''time'', PStr ''2024-01-01T01:00:00''), (''sensor_id'', PInt 9),
                    (''temperature'', PInt 30)])) two_sensor_world = (Inr (), w')
     \<and> sent w' = sent two_sensor_world @ [(response_topic Update, env)]
     \<and> (if list_ex (\<lambda>r. time r = 1704070800 \<and> sensor_id r = 9) (table two_sensor_world)
        then status_code env = 200
           \<and> table w' = map (\<lambda>r. if time r = 1704070800 \<and> sensor_id r = 9
                                 then r\<lparr>temperature := coalesce (Some 30) (temperature r),
                                        humidity := coalesce None (humidity r)\<rparr>
                                 else r) (table two_sensor_world)
        else status_code env = 404 \<and> table w' = table two_sensor_world
           \<and> commits w' = commits two_sensor_world)
     \<and> (PInt 30 = PNone \<longrightarrow> map temperature (table w') = map temperature (table two_sensor_world))
     \<and> (PNone = PNone \<longrightarrow> map humidity (table w') = map humidity (table two_sensor_world))
     \<and> (\<forall>v. Some 30 = Some v \<longrightarrow>
           (\<forall>r \<in> set (table w'). time r = 1704070800 \<and> sensor_id r = 9 \<longrightarrow> temperature r = Some v))
     \<and> (\<forall>v. None = Some v \<longrightarrow>
           (\<forall>r \<in> set (table w'). time r = 1704070800 \<and> sensor_id r = 9 \<longrightarrow> humidity r = Some v))"
    by (rule update_coalesces [where d = "PDict [(''time'', PStr ''2024-01-01T01:00:00''),
          (''sensor_id'', PInt 9), (''temperature'', PInt 30)]"
          and tm = "PStr ''2024-01-01T01:00:00''" and sid = "PInt 9"]) simp_all
  then obtain w2 where c: "handle_update_sensor sample_lib
       (Doc (PDict [(''time'', PStr ''2024-01-01T01:00:00''), (''sensor_id'', PInt 9),
                    (''temperature'', PInt 30)])) two_sensor_world = (Inr (), w2)"
    and d: "table w2 = table two_sensor_world"
    by auto
  show ?thesis unfolding a c using b d by simp
qed

section \<open>Duplicate keys\<close>

text \<open>
  C5. Of two Create requests with the same key \<open>(time, sensor_id)\<close>, the second is
  rejected with status 409, the row stored before is left as it was, and the failed
  insert commits nothing. Here the store is reachable and reads the values of both
  requests, and the key of a request is its time and sensor id as the store reads them
  (\<^verbatim>\<open>NOW()\<close> standing for an absent time). Whatever the first request met, after it a
  row with the key is stored, and the second request is answered with 409 and changes
  neither the table nor the number of commits; when the key was new, the first request
  is answered with 201 and its row is the one stored.
\<close>

theorem duplicate_create_rejected:
  assumes "db_up w"
    and "loads p1 (PDict []) = Inr d1" and "truthy d1"
    and "py_get d1 ''sensor_id'' PNone = Inr sid1" and "sid1 \<noteq> PNone"
    and "py_get d1 ''temperature'' PNone = Inr temp1"
    and "py_get d1 ''humidity'' PNone = Inr hum1"
    and "py_get d1 ''time'' PNone = Inr tm1"
    and "col_time L (given_time tm1) (clock w) = Some t" and "sensor_in L sid1 = Some s"
    and "col_real L temp1 = Some x1" and "col_real L hum1 = Some y1"
    and "loads p2 (PDict []) = Inr d2" and "truthy d2"
    and "py_get d2 ''sensor_id'' PNone = Inr sid2" and "sid2 \<noteq> PNone"
    and "py_get d2 ''temperature'' PNone = Inr temp2"
    and "py_get d2 ''humidity'' PNone = Inr hum2"
    and "py_get d2 ''time'' PNone = Inr tm2"
    and "col_time L (given_time tm2) (clock w) = Some t" and "sensor_in L sid2 = Some s"
    and "col_real L temp2 = Some x2" and "col_real L hum2 = Some y2"
  shows "\<exists>w1 w2.
      handle_create_sensor L p1 w = (Inr (), w1)
    \<and> handle_create_sensor L p2 w1 = (Inr (), w2)
    \<and> sent w2 = sent w1 @ [(response_topic Create,
          \<lparr>status_code = 409,
           data = error_body ''Duplicate entry for this time and sensor_id''\<rparr>)]
    \<and> table w2 = table w1 \<and> commits w2 = commits w1
    \<and> (\<not> list_ex (\<lambda>r. time r = t \<and> sensor_id r = s) (table w) \<longrightarrow>
          table w1 = table w @ [\<lparr>time = t, sensor_id = s, temperature = x1, humidity = y1\<rparr>]
        \<and> commits w1 = commits w + 1
        \<and> sent w1 = sent w @ [(response_topic Create,
             \<lparr>status_code = 201,
              data = PDict [(''message'', PStr ''Sensor data created successfully''),
                (''data'', row_dict L
                   \<lparr>time = t, sensor_id = s, temperature = x1, humidity = y1\<rparr>)]\<rparr>)])"
proof -
  define w1 where "w1 = snd (handle_create_sensor L p1 w)"
  note first = create_answer [OF assms(1-12)]
  have r1: "handle_create_sensor L p1 w = (Inr (), w1)"
    unfolding w1_def first by simp
  have up1: "db_up w1" and clock1: "clock w1 = clock w"
    and stored: "list_ex (\<lambda>r. time r = t \<and> sensor_id r = s) (table w1)"
    unfolding w1_def first using assms(1) by (simp_all add: list_ex_iff)
  have fresh: "\<not> list_ex (\<lambda>r. time r = t \<and> sensor_id r = s) (table w) \<longrightarrow>
          table w1 = table w @ [\<lparr>time = t, sensor_id = s, temperature = x1, humidity = y1\<rparr>]
        \<and> commits w1 = commits w + 1
        \<and> sent w1 = sent w @ [(response_topic Create,
             \<lparr>status_code = 201,
              data = PDict [(''message'', PStr ''Sensor data created successfully''),
                (''data'', row_dict L
                   \<lparr>time = t, sensor_id = s, temperature = x1, humidity = y1\<rparr>)]\<rparr>)]"
    unfolding w1_def first by simp
  have time2: "col_time L (given_time tm2) (clock w1) = Some t"
    using assms(20) clock1 by simp
  note second = create_answer [OF up1 assms(13-19) time2 assms(21-23)]
  define w2 where "w2 = snd (handle_create_sensor L p2 w1)"
  have r2: "handle_create_sensor L p2 w1 = (Inr (), w2)"
    unfolding w2_def second by simp
  have s2: "sent w2 = sent w1 @ [(response_topic Create,
          \<lparr>status_code = 409,
           data = error_body ''Duplicate entry for this time and sensor_id''\<rparr>)]"
    and t2: "table w2 = table w1" and c2: "commits w2 = commits w1"
    unfolding w2_def second using stored by simp_all
  show ?thesis
    by (rule exI [of _ w1], rule exI [of _ w2]) (intro conjI r1 r2 s2 t2 c2 fresh)
qed

theorem duplicate_create_rejected_witness:
  "table (snd (handle_create_sensor sample_lib
      (Doc (PDict [(''sensor_id'', PInt 1), (''time'', PStr ''2024-01-01T00:00:00''),
                   (''temperature'', PInt 99)]))
      (snd (handle_create_sensor sample_lib
        (Doc (PDict [(''sensor_id'', PInt 1), (''time'', PStr ''2024-01-01T00:00:00''),
                     (''temperature'', PInt 20)])) idle_world))))
     = [\<lparr>time = 1704067200, sensor_id = 1, temperature = Some 20, humidity = None\<rparr>]
   \<and> map (\<lambda>m. status_code (snd m)) (sent (snd (handle_create_sensor sample_lib
      (Doc (PDict [(''sensor_id'', PInt 1), (''time'', PStr ''2024-01-01T00:00:00''),
                   (''temperature'', PInt 99)]))
      (snd (handle_create_sensor sample_lib
        (Doc (PDict [(''sensor_id'', PInt 1), (''time'', PStr ''2024-01-01T00:00:00''),
                     (''temperature'', PInt 20)])) idle_world)))))
     = [201, 409]
   \<and> commits (snd (handle_create_sensor sample_lib
      (Doc (PDict [(''sensor_id'', PInt 1), (''time'', PStr ''2024-01-01T00:00:00''),
                   (''temperature'', PInt 99)]))
      (snd (handle_create_sensor sample_lib
        (Doc (PDict [(''sensor_id'', PInt 1), (''time'', PStr ''2024-01-01T00:00:00''),
                     (''temperature'', PInt 20)])) idle_world)))) = 1"
proof -
  have up: "db_up idle_world" by (simp add: idle_world_def)
  have t: "col_time sample_lib (given_time (PStr ''2024-01-01T00:00:00'')) (clock idle_world)
             = Some 1704067200"
    and s: "sensor_in sample_lib (PInt 1) = Some 1"
    and x1: "col_real sample_lib (PInt 20) = Some (Some 20)"
    and x2: "col_real sample_lib (PInt 99) = Some (Some 99)"
    and y: "col_real sample_lib PNone = Some None"
    by (simp_all add: col_time_def given_time_def col_real_def sample_lib_def)
  note pair = duplicate_create_rejected [of idle_world
      "Doc (PDict [(''sensor_id'', PInt 1), (''time'', PStr ''2024-01-01T00:00:00''),
                   (''temperature'', PInt 20)])"
      "PDict [(''sensor_id'', PInt 1), (''time'', PStr ''2024-01-01T00:00:00''),
              (''temperature'', PInt 20)]"
      "PInt 1" "PInt 20" PNone "PStr ''2024-01-01T00:00:00''" sample_lib 1704067200 1
      "Some 20" None
      "Doc (PDict [(''sensor_id'', PInt 1), (''time'', PStr ''2024-01-01T00:00:00''),
                   (''temperature'', PInt 99)])"
      "PDict [(''sensor_id'', PInt 1), (''time'', PStr ''2024-01-01T00:00:00''),
              (''temperature'', PInt 99)]"
      "PInt 1" "PInt 99" PNone "PStr ''2024-01-01T00:00:00''" "Some 99" None,
      OF up _ _ _ _ _ _ _ t s x1 y _ _ _ _ _ _ _ t s x2 y]
  obtain w1 w2 where
    r1: "handle_create_sensor sample_lib
        (Doc (PDict [(''sensor_id'', PInt 1), (''time'', PStr ''2024-01-01T00:00:00''),
                     (''temperature'', PInt 20)])) idle_world = (Inr (), w1)"
    and r2: "handle_create_sensor sample_lib
      (Doc (PDict [(''sensor_id'', PInt 1), (''time'', PStr ''2024-01-01T00:00:00''),
                   (''temperature'', PInt 99)])) w1 = (Inr (), w2)"
    and s2: "sent w2 = sent w1 @ [(response_topic Create,
          \<lparr>status_code = 409,
           data = error_body ''Duplicate entry for this time and sensor_id''\<rparr>)]"
    and t2: "table w2 = table w1" and c2: "commits w2 = commits w1"
    and fresh: "\<not> list_ex (\<lambda>r. time r = 1704067200 \<and> sensor_id r = 1) (table idle_world) \<longrightarrow>
          table w1 = table idle_world @
            [\<lparr>time = 1704067200, sensor_id = 1, temperature = Some 20, humidity = None\<rparr>]
        \<and> commits w1 = commits idle_world + 1
        \<and> sent w1 = sent idle_world @ [(response_topic Create,
             \<lparr>status_code = 201,
              data = PDict [(''message'', PStr ''Sensor data created successfully''),
                (''data'', row_dict sample_lib
                   \<lparr>time = 1704067200, sensor_id = 1, temperature = Some 20,
                      humidity = None\<rparr>)]\<rparr>)]"
    using pair by simp blast
  show ?thesis
    using r1 r2 s2 t2 c2 fresh by (simp add: idle_world_def)
qed

section \<open>The range query\<close>




section \<open>Store connections\<close>

text \<open>
  What every handler does with connections: it returns normally with one envelope
  published, opens at most one connection and closes none but its own; when the answer
  has status 200, 201 or 404 the connection it opened is closed, and a request refused
  with status 400 opened none.
\<close>

lemma connections_per_invocation:
  "\<exists>env w'. handler L op p w = (Inr (), w')
     \<and> sent w' = sent w @ [(response_topic op, env)]
     \<and> opened w \<le> opened w' \<and> opened w' \<le> opened w + 1
     \<and> closed w \<le> closed w' \<and> closed w' + opened w \<le> closed w + opened w'
     \<and> (status_code env \<in> {200, 201, 404} \<longrightarrow>
           opened w' = opened w + 1 \<and> closed w' = closed w + 1)
     \<and> (status_code env = 400 \<longrightarrow> opened w' = opened w \<and> closed w' = closed w)"
  using handler_contract [of op L p] unfolding contract_def fine_def by blast

text \<open>
  C7. Every invocation opens one store connection and releases it on every exit path,
  also when the query or the shaping of the result fails, so that no operation leaves a
  connection open. The handlers do not: \<^verbatim>\<open>conn.close()\<close> stands in the body of the
  \<^verbatim>\<open>try\<close>, with no \<^verbatim>\<open>finally\<close>, and is skipped when an exception is raised after
  the connection was opened. A GetAll request whose payload is not JSON is answered with
  status 500, and a Create request for a key that is stored already with status 409, and
  each leaves the connection it opened open.
\<close>

theorem failed_request_leaves_connection_open:
  "handle_get_all_sensors sample_lib Garbled idle_world =
     (Inr (), idle_world\<lparr>opened := 1,
        sent := [(''sensors/get_all/response'',
                  \<lparr>status_code = 500, data = PDict [(''error'', PStr ''error'')]\<rparr>)],
        journal := [Published ''sensors/get_all/response'']\<rparr>)
   \<and> opened (snd (handle_get_all_sensors sample_lib Garbled idle_world)) = 1
   \<and> closed (snd (handle_get_all_sensors sample_lib Garbled idle_world)) = 0
   \<and> handle_create_sensor sample_lib
        (Doc (PDict [(''sensor_id'', PInt 1), (''time'', PStr ''2024-01-01T00:00:00'')]))
        two_sensor_world =
     (Inr (), two_sensor_world\<lparr>opened := 1,
        sent := [(''sensors/create/response'',
                  \<lparr>status_code = 409,
                   data = PDict [(''error'', PStr ''Duplicate entry for this time and sensor_id'')]\<rparr>)],
        journal := [Published ''sensors/create/response'']\<rparr>)
   \<and> opened (snd (handle_create_sensor sample_lib
        (Doc (PDict [(''sensor_id'', PInt 1), (''time'', PStr ''2024-01-01T00:00:00'')]))
        two_sensor_world)) = 1
   \<and> closed (snd (handle_create_sensor sample_lib
        (Doc (PDict [(''sensor_id'', PInt 1), (''time'', PStr ''2024-01-01T00:00:00'')]))
        two_sensor_world)) = 0"
proof -
  have get_all: "handle_get_all_sensors sample_lib Garbled idle_world =
     (Inr (), idle_world\<lparr>opened := 1,
        sent := [(''sensors/get_all/response'',
                  \<lparr>status_code = 500, data = PDict [(''error'', PStr ''error'')]\<rparr>)],
        journal := [Published ''sensors/get_all/response'']\<rparr>)"
    by (simp add: handle_get_all_sensors_def run_defs store_defs error_body_def idle_world_def
        sample_lib_def)
  have create: "handle_create_sensor sample_lib
        (Doc (PDict [(''sensor_id'', PInt 1), (''time'', PStr ''2024-01-01T00:00:00'')]))
        two_sensor_world =
     (Inr (), two_sensor_world\<lparr>opened := 1,
        sent := [(''sensors/create/response'',
                  \<lparr>status_code = 409,
                   data = PDict [(''error'', PStr ''Duplicate entry for this time and sensor_id'')]\<rparr>)],
        journal := [Published ''sensors/create/response'']\<rparr>)"
    using create_answer [of two_sensor_world
        "Doc (PDict [(''sensor_id'', PInt 1), (''time'', PStr ''2024-01-01T00:00:00'')])"
        "PDict [(''sensor_id'', PInt 1), (''time'', PStr ''2024-01-01T00:00:00'')]"
        "PInt 1" PNone PNone "PStr ''2024-01-01T00:00:00''" sample_lib 1704067200 1 None None]
    by (simp add: col_time_def given_time_def col_real_def error_body_def two_sensor_world_def)
  show ?thesis
    unfolding get_all create by (simp add: idle_world_def two_sensor_world_def)
qed

section \<open>The bucket width\<close>




section \<open>A sensor id of zero\<close>

text \<open>
  C10. With \<^verbatim>\<open>sensor_id\<close> equal to 0, GetAll, Stats and TimeBucket behave as if no
  sensor id had been given (they test its truth value), while GetById (which tests
  for None) does filter, and answers with the rows of sensor 0 only.
\<close>

theorem zero_sensor_id:
  assumes "map_of kv ''sensor_id'' = Some (PInt 0)"
    and "map_of kv' = (map_of kv)(''sensor_id'' := None)"
  shows "handle_get_all_sensors L (Doc (PDict kv)) w = handle_get_all_sensors L (Doc (PDict kv')) w
     \<and> handle_get_stats L (Doc (PDict kv)) w = handle_get_stats L (Doc (PDict kv')) w
     \<and> handle_time_bucket L (Doc (PDict kv)) w = handle_time_bucket L (Doc (PDict kv')) w
     \<and> (db_up w \<and> sensor_in L (PInt 0) = Some 0
          \<and> py_get (PDict kv) ''hours'' (PInt 24) = Inr hours \<and> hours_in L hours = Some hrs \<longrightarrow>
        handle_get_sensor_by_id L (Doc (PDict kv)) w =
          (Inr (), w\<lparr>opened := opened w + 1, closed := closed w + 1,
             sent := sent w @ [(response_topic Get_by_id,
               \<lparr>status_code = 200,
                data = listing L (newest_first
                  (filter (\<lambda>r. sensor_id r = 0 \<and> time r > clock w - hrs) (table w)))\<rparr>)],
             journal := journal w @ [Published (response_topic Get_by_id)]\<rparr>))"
proof -
  have f: "\<not> truthy (PInt 0)" by simp
  have g: "py_get (PDict kv) ''sensor_id'' PNone = Inr (PInt 0)"
    using assms(1) by simp
  have "db_up w \<Longrightarrow> sensor_in L (PInt 0) = Some 0 \<Longrightarrow>
        py_get (PDict kv) ''hours'' (PInt 24) = Inr hours \<Longrightarrow> hours_in L hours = Some hrs \<Longrightarrow>
        handle_get_sensor_by_id L (Doc (PDict kv)) w =
          (Inr (), w\<lparr>opened := opened w + 1, closed := closed w + 1,
             sent := sent w @ [(response_topic Get_by_id,
               \<lparr>status_code = 200,
                data = listing L (newest_first
                  (filter (\<lambda>r. sensor_id r = 0 \<and> time r > clock w - hrs) (table w)))\<rparr>)],
             journal := journal w @ [Published (response_topic Get_by_id)]\<rparr>)"
    using assms(1)
    by (intro get_by_id_answer [where d = "PDict kv" and sid = "PInt 0" and hours = hours])
       simp_all
  then show ?thesis
    using get_all_falsy_sensor [OF assms(1) f assms(2)]
      stats_falsy_sensor [OF assms(1) f assms(2)]
      time_bucket_falsy_sensor [OF assms(1) f assms(2)]
    by blast
qed

theorem zero_sensor_id_witness:
  "handle_get_all_sensors sample_lib (Doc (PDict [(''sensor_id'', PInt 0)])) two_sensor_world
     = handle_get_all_sensors sample_lib (Doc (PDict [])) two_sensor_world
   \<and> handle_get_stats sample_lib (Doc (PDict [(''sensor_id'', PInt 0)])) two_sensor_world
     = handle_get_stats sample_lib (Doc (PDict [])) two_sensor_world
   \<and> handle_time_bucket sample_lib (Doc (PDict [(''sensor_id'', PInt 0)])) two_sensor_world
     = handle_time_bucket sample_lib (Doc (PDict [])) two_sensor_world
   \<and> sent (snd (handle_get_sensor_by_id sample_lib (Doc (PDict [(''sensor_id'', PInt 0)]))
        two_sensor_world))
     = [(''sensors/get_by_id/response'',
         \<lparr>status_code = 200,
          data = listing sample_lib
            [\<lparr>time = 1704067200, sensor_id = 0, temperature = Some 5, humidity = None\<rparr>]\<rparr>)]"
  using zero_sensor_id [of "[(''sensor_id'', PInt 0)]" "[]" sample_lib two_sensor_world
      "PInt 24" "86400"]
  by (simp add: fun_eq_iff newest_first_def)

end
